theory Spec2Isabelle
  imports Main
begin

section \<open>Python values, strings and errors\<close>

text \<open>
  A Python \<open>str\<close> is a sequence of Unicode code points; it is modelled as a list of
  integers (the code points), so that the currency signs of the amount patterns
  (\<open>$\<close> 36, pound 163, euro 8364) are single characters as in Python.
  \<open>str\<close> turns an ASCII literal into such a list.
\<close>

type_synonym pystr = "int list"

definition str :: "string \<Rightarrow> pystr" where
  "str s = map of_char s"

datatype py_error =
  ValueError | TypeError | NameError | OverflowError | AttributeError | KeyError | RequestException

datatype pyval = PyNone | PyStr pystr | PyInt int

text \<open>Truthiness of an optional string: \<open>None\<close> and \<open>''\<close> are falsy.\<close>

fun truthy :: "pystr option \<Rightarrow> bool" where
  "truthy None = False"
| "truthy (Some s) = (s \<noteq> [])"

text \<open>Python's \<open>a or b\<close> on optional strings.\<close>

definition py_or :: "pystr option \<Rightarrow> pystr option \<Rightarrow> pystr option" where
  "py_or a b = (if truthy a then a else b)"

subsection \<open>Character classes\<close>

text \<open>
  White space is Python's: the code points for which \<open>str.isspace\<close> holds, which
  are also those of \<open>\s\<close> and of \<open>str.strip()\<close> (9 to 13, 28 to 32, U+0085,
  U+00A0, U+1680, U+2000 to U+200A, U+2028, U+2029, U+202F, U+205F, U+3000).
  \<open>\d\<close>, \<open>\w\<close> and case folding are given for ASCII code points, where they
  are exactly Python's; the further Unicode digits, letters and case pairs that
  Python's \<open>re\<close> also accepts lie outside ASCII and are not in these classes.
\<close>

definition is_digit :: "int \<Rightarrow> bool" where
  "is_digit c = (48 \<le> c \<and> c \<le> 57)"

definition is_space :: "int \<Rightarrow> bool" where
  "is_space c =
     ((9 \<le> c \<and> c \<le> 13) \<or> (28 \<le> c \<and> c \<le> 32) \<or> c = 133 \<or> c = 160 \<or> c = 5760 \<or>
      (8192 \<le> c \<and> c \<le> 8202) \<or> c = 8232 \<or> c = 8233 \<or> c = 8239 \<or> c = 8287 \<or>
      c = 12288)"

definition is_upper :: "int \<Rightarrow> bool" where
  "is_upper c = (65 \<le> c \<and> c \<le> 90)"

definition is_lower :: "int \<Rightarrow> bool" where
  "is_lower c = (97 \<le> c \<and> c \<le> 122)"

definition is_word :: "int \<Rightarrow> bool" where
  "is_word c = (is_digit c \<or> is_upper c \<or> is_lower c \<or> c = 95)"

definition lower_chr :: "int \<Rightarrow> int" where
  "lower_chr c = (if is_upper c then c + 32 else c)"

definition upper_chr :: "int \<Rightarrow> int" where
  "upper_chr c = (if is_lower c then c - 32 else c)"

definition lower_str :: "pystr \<Rightarrow> pystr" where
  "lower_str s = map lower_chr s"

text \<open>\<open>s.strip()\<close> and \<open>s.strip(chars)\<close>.\<close>

definition strip_with :: "(int \<Rightarrow> bool) \<Rightarrow> pystr \<Rightarrow> pystr" where
  "strip_with p s = rev (dropWhile p (rev (dropWhile p s)))"

definition strip :: "pystr \<Rightarrow> pystr" where
  "strip s = strip_with is_space s"

definition strip_chars :: "pystr \<Rightarrow> pystr \<Rightarrow> pystr" where
  "strip_chars chars s = strip_with (\<lambda>c. c \<in> set chars) s"

section \<open>Regular expressions as Python's \<open>re\<close> matches them\<close>

text \<open>
  The patterns of the scraper are written as syntax trees and matched by a
  backtracking matcher with Python's priorities: alternatives left to right, greedy
  repetitions longest first, lazy ones shortest first, the leftmost start wins.
  \<open>Cls\<close> is a character set given by ranges, \<open>Rep greedy min max r\<close> is \<open>r{min,max}\<close>
  (\<open>max = None\<close> for unbounded), \<open>Grp n r\<close> is the \<open>n\<close>-th capturing group,
  \<open>Look r\<close> is \<open>(?=r)\<close>, \<open>WordB\<close> is \<open>\b\<close>, \<open>Bol\<close> and \<open>Eol\<close> are \<open>^\<close> and \<open>$\<close>.
\<close>

datatype regex =
    Eps
  | Cls "(int \<times> int) list"
  | NCls "(int \<times> int) list"
  | Seq regex regex
  | Alt regex regex
  | Rep bool nat "nat option" regex
  | Grp nat regex
  | Look regex
  | WordB
  | Bol
  | Eol

record flags =
  ignorecase :: bool
  multiline :: bool

definition no_flags :: flags where
  "no_flags = \<lparr>ignorecase = False, multiline = False\<rparr>"

definition IGNORECASE :: flags where
  "IGNORECASE = \<lparr>ignorecase = True, multiline = False\<rparr>"

definition IGNORECASE_MULTILINE :: flags where
  "IGNORECASE_MULTILINE = \<lparr>ignorecase = True, multiline = True\<rparr>"

text \<open>
  The matcher's position: the character before it (for \<open>\b\<close> and \<open>^\<close>), the text
  still to read, the number of characters still to read, and the groups captured so
  far (latest first), each with the number of characters that were still to read at
  its start and its text.
\<close>

datatype mstate = MS "int option" pystr int "(nat \<times> int \<times> pystr) list"

fun in_ranges :: "(int \<times> int) list \<Rightarrow> int \<Rightarrow> bool" where
  "in_ranges [] c = False"
| "in_ranges ((lo, hi) # rs) c = ((lo \<le> c \<and> c \<le> hi) \<or> in_ranges rs c)"

definition cls_match :: "flags \<Rightarrow> (int \<times> int) list \<Rightarrow> int \<Rightarrow> bool" where
  "cls_match f rs c =
     (in_ranges rs c \<or>
      (ignorecase f \<and> (in_ranges rs (lower_chr c) \<or> in_ranges rs (upper_chr c))))"

fun word_before :: "int option \<Rightarrow> bool" where
  "word_before None = False"
| "word_before (Some c) = is_word c"

fun word_after :: "pystr \<Rightarrow> bool" where
  "word_after [] = False"
| "word_after (c # cs) = is_word c"

definition at_word_boundary :: "int option \<Rightarrow> pystr \<Rightarrow> bool" where
  "at_word_boundary p s = (word_before p \<noteq> word_after s)"

definition at_bol :: "flags \<Rightarrow> int option \<Rightarrow> bool" where
  "at_bol f p = (p = None \<or> (multiline f \<and> p = Some 10))"

fun at_eol :: "flags \<Rightarrow> pystr \<Rightarrow> bool" where
  "at_eol f [] = True"
| "at_eol f (c # cs) = (c = 10 \<and> (cs = [] \<or> multiline f))"

fun rsize :: "regex \<Rightarrow> nat" where
  "rsize (Seq a b) = Suc (rsize a + rsize b)"
| "rsize (Alt a b) = Suc (rsize a + rsize b)"
| "rsize (Rep g mn mx r) = rsize r + 2"
| "rsize (Grp n r) = rsize r + 2"
| "rsize (Look r) = rsize r + 1"
| "rsize _ = 1"

fun dec_max :: "nat option \<Rightarrow> nat option" where
  "dec_max None = None"
| "dec_max (Some m) = Some (m - 1)"

text \<open>
  What is left to do after the part of the pattern being matched is a stack of
  frames: \<open>M r\<close>, match \<open>r\<close>; \<open>G n k s\<close>, close group \<open>n\<close>, which was opened with
  \<open>k\<close> characters \<open>s\<close> to read; \<open>R greedy min max r k\<close>, one iteration of the
  repetition \<open>r{min,max}\<close> is done, it began with \<open>k\<close> characters to read.
  \<open>run f fs st\<close> matches the frames \<open>fs\<close> from \<open>st\<close> and gives the final position
  of the first way that succeeds, trying the ways in Python's order. A repetition
  goes on only after an iteration that consumed text (no pattern of the scraper
  repeats a body that can match the empty string).
\<close>

datatype frame = M regex | G nat int pystr | R bool nat "nat option" regex int

fun fweight :: "int \<Rightarrow> frame \<Rightarrow> nat" where
  "fweight n (M r) = rsize r"
| "fweight n (G k m s) = 1"
| "fweight n (R g mn mx r n0) = (if n < n0 then rsize r + 3 else 0)"

function run :: "flags \<Rightarrow> frame list \<Rightarrow> mstate \<Rightarrow> mstate option" where
  "run f [] st = Some st"
| "run f (M Eps # fs) st = run f fs st"
| "run f (M (Cls rs) # fs) (MS p [] n cs) = None"
| "run f (M (Cls rs) # fs) (MS p (c # s) n cs) =
     (if 0 < n \<and> cls_match f rs c then run f fs (MS (Some c) s (n - 1) cs) else None)"
| "run f (M (NCls rs) # fs) (MS p [] n cs) = None"
| "run f (M (NCls rs) # fs) (MS p (c # s) n cs) =
     (if 0 < n \<and> \<not> cls_match f rs c then run f fs (MS (Some c) s (n - 1) cs) else None)"
| "run f (M (Seq a b) # fs) st = run f (M a # M b # fs) st"
| "run f (M (Alt a b) # fs) st =
     (case run f (M a # fs) st of Some res \<Rightarrow> Some res | None \<Rightarrow> run f (M b # fs) st)"
| "run f (M (Rep g mn mx r) # fs) (MS p s n cs) =
     (if mx = Some 0 then run f fs (MS p s n cs)
      else if 0 < mn then run f (M r # R g mn mx r n # fs) (MS p s n cs)
      else if g then
        (case run f (M r # R g mn mx r n # fs) (MS p s n cs) of
           Some res \<Rightarrow> Some res
         | None \<Rightarrow> run f fs (MS p s n cs))
      else
        (case run f fs (MS p s n cs) of
           Some res \<Rightarrow> Some res
         | None \<Rightarrow> run f (M r # R g mn mx r n # fs) (MS p s n cs)))"
| "run f (R g mn mx r n0 # fs) (MS p s n cs) =
     (if n < n0 then run f (M (Rep g (mn - 1) (dec_max mx) r) # fs) (MS p s n cs) else None)"
| "run f (M (Grp k r) # fs) (MS p s n cs) = run f (M r # G k n s # fs) (MS p s n cs)"
| "run f (G k n0 s0 # fs) (MS p s n cs) =
     run f fs (MS p s n ((k, n0, take (nat (n0 - n)) s0) # cs))"
| "run f (M (Look r) # fs) (MS p s n cs) =
     (case run f [M r] (MS p s n cs) of
        None \<Rightarrow> None
      | Some (MS p' s' n' cs') \<Rightarrow> run f fs (MS p s n cs'))"
| "run f (M WordB # fs) (MS p s n cs) =
     (if at_word_boundary p s then run f fs (MS p s n cs) else None)"
| "run f (M Bol # fs) (MS p s n cs) = (if at_bol f p then run f fs (MS p s n cs) else None)"
| "run f (M Eol # fs) (MS p s n cs) = (if at_eol f s then run f fs (MS p s n cs) else None)"
  by pat_completeness auto
termination
  by (relation "inv_image (less_than <*lex*> less_than)
                  (\<lambda>(f, fs, st). case st of MS p s n cs \<Rightarrow> (nat n, sum_list (map (fweight n) fs)))")
     (auto split: mstate.split)

subsection \<open>Match objects, \<open>search\<close>, \<open>finditer\<close> and \<open>sub\<close>\<close>

fun ngroups :: "regex \<Rightarrow> nat" where
  "ngroups (Seq a b) = ngroups a + ngroups b"
| "ngroups (Alt a b) = ngroups a + ngroups b"
| "ngroups (Rep g mn mx r) = ngroups r"
| "ngroups (Grp n r) = Suc (ngroups r)"
| "ngroups (Look r) = ngroups r"
| "ngroups _ = 0"

text \<open>
  A match object: \<open>m_start\<close> and \<open>m_end\<close> are \<open>match.start()\<close> and \<open>match.end()\<close>,
  \<open>m_text\<close> is \<open>match.group(0)\<close>, \<open>m_groups\<close> is \<open>match.groups()\<close> (one entry
  for each group of the pattern, \<open>None\<close> for a group that took no part), and
  \<open>m_starts\<close> gives \<open>match.start(i)\<close>. \<open>tlen\<close> is the length of the whole text.
\<close>

record rematch =
  m_start :: nat
  m_end :: nat
  m_text :: pystr
  m_groups :: "pystr option list"
  m_starts :: "nat option list"

definition group_text :: "(nat \<times> int \<times> pystr) list \<Rightarrow> nat \<Rightarrow> pystr option" where
  "group_text cs i = map_option snd (map_of cs i)"

definition group_start :: "int \<Rightarrow> (nat \<times> int \<times> pystr) list \<Rightarrow> nat \<Rightarrow> nat option" where
  "group_start tlen cs i = map_option (\<lambda>x. nat (tlen - fst x)) (map_of cs i)"

fun mk_match :: "regex \<Rightarrow> int \<Rightarrow> pystr \<Rightarrow> int \<Rightarrow> mstate \<Rightarrow> rematch" where
  "mk_match r tlen s0 n0 (MS p s n cs) =
     \<lparr>m_start = nat (tlen - n0), m_end = nat (tlen - n), m_text = take (nat (n0 - n)) s0,
      m_groups = map (group_text cs) [1 ..< Suc (ngroups r)],
      m_starts = map (group_start tlen cs) [1 ..< Suc (ngroups r)]\<rparr>"

text \<open>
  The leftmost match at or after the position (the text \<open>s\<close> to read has \<open>n\<close>
  characters), with the matcher's final position.
\<close>

fun search_from :: "flags \<Rightarrow> regex \<Rightarrow> int \<Rightarrow> int option \<Rightarrow> pystr \<Rightarrow> int \<Rightarrow> (rematch \<times> mstate) option" where
  "search_from f r tlen p [] n =
     (case run f [M r] (MS p [] n []) of
        Some st \<Rightarrow> Some (mk_match r tlen [] n st, st)
      | None \<Rightarrow> None)"
| "search_from f r tlen p (c # cs) n =
     (case run f [M r] (MS p (c # cs) n []) of
        Some st \<Rightarrow> Some (mk_match r tlen (c # cs) n st, st)
      | None \<Rightarrow> search_from f r tlen (Some c) cs (n - 1))"

definition re_search :: "flags \<Rightarrow> regex \<Rightarrow> pystr \<Rightarrow> rematch option" where
  "re_search f r s = map_option fst (search_from f r (int (length s)) None s (int (length s)))"

text \<open>
  \<open>finditer\<close>: the non-overlapping matches from left to right. After a match the scan
  resumes where it ended; after an empty match at the scan position it moves on by
  one character.
\<close>

function finditer_from :: "flags \<Rightarrow> regex \<Rightarrow> int \<Rightarrow> int option \<Rightarrow> pystr \<Rightarrow> int \<Rightarrow> rematch list" where
  "finditer_from f r tlen p s n =
     (case search_from f r tlen p s n of
        None \<Rightarrow> []
      | Some (m, MS p' s' n' cs') \<Rightarrow>
          m # (if length s' < length s
               then finditer_from f r tlen p' s' n'
               else (case s of [] \<Rightarrow> [] | c # cs \<Rightarrow> finditer_from f r tlen (Some c) cs (n - 1))))"
  by pat_completeness auto
termination
  by (relation "measure (\<lambda>(f, r, tlen, p, s, n). length s)") auto

definition re_finditer :: "flags \<Rightarrow> regex \<Rightarrow> pystr \<Rightarrow> rematch list" where
  "re_finditer f r s = finditer_from f r (int (length s)) None s (int (length s))"

text \<open>
  \<open>re.sub\<close> with the replacement computed from each match: the text between the
  matches is kept, each match is replaced.
\<close>

fun sub_pieces :: "(rematch \<Rightarrow> pystr) \<Rightarrow> pystr \<Rightarrow> nat \<Rightarrow> rematch list \<Rightarrow> pystr" where
  "sub_pieces repl s i [] = drop i s"
| "sub_pieces repl s i (m # ms) =
     take (m_start m - i) (drop i s) @ repl m @ sub_pieces repl s (m_end m) ms"

definition re_sub :: "flags \<Rightarrow> regex \<Rightarrow> (rematch \<Rightarrow> pystr) \<Rightarrow> pystr \<Rightarrow> pystr" where
  "re_sub f r repl s = sub_pieces repl s 0 (re_finditer f r s)"

subsection \<open>Pattern building blocks\<close>

definition chr :: "char \<Rightarrow> regex" where
  "chr c = Cls [(of_char c, of_char c)]"

fun lit :: "string \<Rightarrow> regex" where
  "lit [] = Eps"
| "lit [c] = chr c"
| "lit (c # cs) = Seq (chr c) (lit cs)"

fun seqs :: "regex list \<Rightarrow> regex" where
  "seqs [] = Eps"
| "seqs [r] = r"
| "seqs (r # rs) = Seq r (seqs rs)"

fun alts :: "regex list \<Rightarrow> regex" where
  "alts [] = Eps"
| "alts [r] = r"
| "alts (r # rs) = Alt r (alts rs)"

definition digit :: regex where  \<comment> \<open>\<open>\d\<close>\<close>
  "digit = Cls [(48, 57)]"

definition space_ranges :: "(int \<times> int) list" where  \<comment> \<open>\<open>\s\<close>\<close>
  "space_ranges =
     [(9, 13), (28, 32), (133, 133), (160, 160), (5760, 5760), (8192, 8202), (8232, 8233),
      (8239, 8239), (8287, 8287), (12288, 12288)]"

definition space :: regex where  \<comment> \<open>\<open>\s\<close>\<close>
  "space = Cls space_ranges"

definition word_ranges :: "(int \<times> int) list" where  \<comment> \<open>\<open>\w\<close>\<close>
  "word_ranges = [(48, 57), (65, 90), (95, 95), (97, 122)]"

definition star :: "regex \<Rightarrow> regex" where
  "star r = Rep True 0 None r"

definition plus :: "regex \<Rightarrow> regex" where
  "plus r = Rep True 1 None r"

definition lazy_plus :: "regex \<Rightarrow> regex" where
  "lazy_plus r = Rep False 1 None r"

definition opt :: "regex \<Rightarrow> regex" where
  "opt r = Rep True 0 (Some 1) r"

definition rep :: "nat \<Rightarrow> nat \<Rightarrow> regex \<Rightarrow> regex" where
  "rep mn mx r = Rep True mn (Some mx) r"


section \<open>Numbers: \<open>float\<close>, \<open>int\<close> and \<open>str\<close> of an integer\<close>

text \<open>
  A finite non-negative double is kept as an exact fraction \<open>(a, b)\<close>, \<open>b > 0\<close>.
  \<open>round_double a b\<close> is the double nearest to \<open>a / b\<close> (53 significant bits, ties
  to even), or \<open>None\<close> when the result is infinite. Values this small that they
  would be subnormal do not occur: the nonzero numbers read here are at least 1/100.
\<close>

function nbits :: "int \<Rightarrow> int" where
  "nbits n = (if n \<le> 0 then 0 else 1 + nbits (n div 2))"
  by pat_completeness auto
termination
  by (relation "measure nat") auto

definition round_half_even :: "int \<Rightarrow> int \<Rightarrow> int" where
  "round_half_even a b =
     (let q = a div b; r = a mod b
      in if 2 * r < b then q else if 2 * r > b then q + 1
         else if even q then q else q + 1)"

definition round_double :: "int \<Rightarrow> int \<Rightarrow> (int \<times> int) option" where
  "round_double a b =
     (if a = 0 then Some (0, 1)
      else
        let e0 = nbits a - nbits b - 53;
            n0 = (if e0 \<ge> 0 then a else a * 2 ^ nat (- e0));
            d0 = (if e0 \<ge> 0 then b * 2 ^ nat e0 else b);
            up = (n0 div d0 \<ge> 2 ^ 53);
            e1 = (if up then e0 + 1 else e0);
            d1 = (if up then 2 * d0 else d0);
            m = round_half_even n0 d1;
            e2 = (if m = 2 ^ 53 then e1 + 1 else e1);
            m2 = (if m = 2 ^ 53 then 2 ^ 52 else m)
        in if e2 > 971 then None
           else if e2 \<ge> 0 then Some (m2 * 2 ^ nat e2, 1)
           else Some (m2, 2 ^ nat (- e2)))"

definition digits_val :: "pystr \<Rightarrow> int" where
  "digits_val ds = foldl (\<lambda>acc c. 10 * acc + (c - 48)) 0 ds"

text \<open>
  \<open>float(s)\<close> for the strings the number patterns can deliver: ASCII digits with at
  most one decimal point and at least one digit, surrounding white space ignored.
  Any other string is a \<open>ValueError\<close> here (Python's \<open>float\<close> also reads signs,
  exponents, underscores, \<open>inf\<close> and \<open>nan\<close>, which no capture contains). The result
  is \<open>None\<close> for an infinite float.
\<close>

definition py_float :: "pystr \<Rightarrow> py_error + (int \<times> int) option" where
  "py_float s =
     (let t = strip s; ip = takeWhile is_digit t; r = dropWhile is_digit t
      in case r of
           [] \<Rightarrow> if ip = [] then Inl ValueError else Inr (round_double (digits_val ip) 1)
         | c # fp \<Rightarrow>
             if c = 46 \<and> list_all is_digit fp \<and> (ip \<noteq> [] \<or> fp \<noteq> [])
             then Inr (round_double (digits_val (ip @ fp)) (10 ^ length fp))
             else Inl ValueError)"

text \<open>\<open>int(value * multiplier)\<close>: a rounded product, truncated; infinity cannot be converted.\<close>

definition int_of_product :: "(int \<times> int) option \<Rightarrow> int \<Rightarrow> py_error + int" where
  "int_of_product v m =
     (case v of None \<Rightarrow> Inl OverflowError
      | Some (a, b) \<Rightarrow>
          (case round_double (a * m) b of None \<Rightarrow> Inl OverflowError
           | Some (c, d) \<Rightarrow> Inr (c div d)))"

function nat_digits :: "int \<Rightarrow> pystr" where
  "nat_digits n = (if n < 10 then [48 + n] else nat_digits (n div 10) @ [48 + n mod 10])"
  by pat_completeness auto
termination
  by (relation "measure nat") auto

definition show_int :: "int \<Rightarrow> pystr" where  \<comment> \<open>\<open>str(n)\<close>\<close>
  "show_int n = (if n < 0 then 45 # nat_digits (- n) else nat_digits n)"

section \<open>\<open>extract_amount\<close>\<close>

definition currency_symbols_nc :: regex where  \<comment> \<open>\<open>(?:[$\<euro>\<pounds>])\<close>, code points 36, 8364, 163\<close>
  "currency_symbols_nc = Cls [(36, 36), (8364, 8364), (163, 163)]"

definition currency_codes_nc :: regex where  \<comment> \<open>\<open>(?:USD|EUR|GBP)\<close>\<close>
  "currency_codes_nc = alts [lit ''USD'', lit ''EUR'', lit ''GBP'']"

definition currency_capture :: "nat \<Rightarrow> regex" where
  "currency_capture n = Grp n (Alt currency_symbols_nc currency_codes_nc)"

definition number_pattern_nc :: regex where  \<comment> \<open>\<open>(?:\d{1,3}(?:,\d{3})*(?:\.\d{1,2})?)\<close>\<close>
  "number_pattern_nc =
     seqs [rep 1 3 digit, star (Seq (chr CHR '','') (rep 3 3 digit)),
           opt (Seq (chr CHR ''.'') (rep 1 2 digit))]"

definition number_capture :: "nat \<Rightarrow> regex" where
  "number_capture n = Grp n number_pattern_nc"

definition multiplier_capture :: "nat \<Rightarrow> regex" where  \<comment> \<open>\<open>(\s*(?:k|thousand|million)\b)\<close>\<close>
  "multiplier_capture n =
     Grp n (seqs [star space, alts [lit ''k'', lit ''thousand'', lit ''million''], WordB])"

text \<open>\<open>\b(0?\d{1,3})\s*-\s*(\d{1,3})\b\<close>, compiled without flags.\<close>

definition mangled_range_pattern :: regex where
  "mangled_range_pattern =
     seqs [WordB, Grp 1 (Seq (opt (chr CHR ''0'')) (rep 1 3 digit)), star space,
           chr CHR ''-'', star space, Grp 2 (rep 1 3 digit), WordB]"

text \<open>
  \<open>(?:{currency_capture})?\s*{number_capture}(?:\s*{multiplier_capture})?\s*(?:-|to)\s*
  (?:{currency_capture})?\s*{number_capture}(?:\s*{multiplier_capture})?\<close>:
  the groups, in the order of their opening parentheses, are numbered 1 to 6.
\<close>

definition standard_range_pattern :: regex where
  "standard_range_pattern =
     seqs [opt (currency_capture 1), star space, number_capture 2,
           opt (Seq (star space) (multiplier_capture 3)), star space,
           Alt (chr CHR ''-'') (lit ''to''), star space,
           opt (currency_capture 4), star space, number_capture 5,
           opt (Seq (star space) (multiplier_capture 6))]"

text \<open>
  \<open>(?:up to|maximum of|upto)\s+(?:{currency_capture})?\s*{number_capture}
  (?:{multiplier_capture})?\s*(?:{currency_capture})?\<close>
\<close>

definition upto_pattern :: regex where
  "upto_pattern =
     seqs [alts [lit ''up to'', lit ''maximum of'', lit ''upto''], plus space,
           opt (currency_capture 1), star space, number_capture 2,
           opt (multiplier_capture 3), star space, opt (currency_capture 4)]"

text \<open>
  \<open>(?:grants? of|prize of|award of|funding of|amount:)\s*{currency_capture}?\s*
  {number_capture}\s*{multiplier_capture}?\s*{currency_capture}?\<close>
\<close>

definition strict_single_pattern :: regex where
  "strict_single_pattern =
     seqs [alts [seqs [lit ''grant'', opt (chr CHR ''s''), lit '' of''], lit ''prize of'',
                 lit ''award of'', lit ''funding of'', lit ''amount:''],
           star space, opt (currency_capture 1), star space, number_capture 2, star space,
           opt (multiplier_capture 3), star space, opt (currency_capture 4)]"

text \<open>\<open>({currency_codes_nc})\s*{number_capture}\s*{multiplier_capture}?\<close>\<close>

definition code_single_pattern :: regex where
  "code_single_pattern =
     seqs [Grp 1 currency_codes_nc, star space, number_capture 2, star space,
           opt (multiplier_capture 3)]"

text \<open>\<open>({currency_symbols_nc})\s*{number_capture}\s*{multiplier_capture}?\<close>\<close>

definition symbol_single_pattern :: regex where
  "symbol_single_pattern =
     seqs [Grp 1 currency_symbols_nc, star space, number_capture 2, star space,
           opt (multiplier_capture 3)]"

subsection \<open>The helper \<open>clean_and_convert\<close>\<close>

text \<open>
  \<open>None\<close> for a missing number and for a \<open>ValueError\<close> or \<open>TypeError\<close> of the
  conversion, which the helper catches; an \<open>OverflowError\<close> (the integer of an
  infinite float) is not caught by it.
\<close>

definition multiplier_of :: "pystr option \<Rightarrow> int" where
  "multiplier_of multiplier_str =
     (if truthy multiplier_str then
        (let multi_lower = lower_str (the multiplier_str)
         in if multi_lower = str ''k'' \<or> multi_lower = str ''thousand'' then 1000
            else if multi_lower = str ''million'' then 1000000
            else 1)
      else 1)"

definition clean_and_convert :: "pystr option \<Rightarrow> pystr option \<Rightarrow> py_error + int option" where
  "clean_and_convert num_str multiplier_str =
     (case num_str of
        None \<Rightarrow> Inr None
      | Some ns \<Rightarrow>
          (let cleaned_num =
                 strip (re_sub no_flags (Alt currency_symbols_nc (chr CHR '','')) (\<lambda>m. []) ns)
           in case py_float cleaned_num of
                Inl e \<Rightarrow> (if e = ValueError \<or> e = TypeError then Inr None else Inl e)
              | Inr v \<Rightarrow>
                  (case int_of_product v (multiplier_of multiplier_str) of
                     Inl e \<Rightarrow> (if e = ValueError \<or> e = TypeError then Inr None else Inl e)
                   | Inr n \<Rightarrow> Inr (Some n))))"


subsection \<open>The cascade\<close>

definition of_opt :: "pystr option \<Rightarrow> pyval" where
  "of_opt x = (case x of None \<Rightarrow> PyNone | Some s \<Rightarrow> PyStr s)"

text \<open>The f-string \<open>f"{found_currency}{found_amount}"\<close>.\<close>

definition amount_string :: "pystr \<Rightarrow> int \<Rightarrow> pyval" where
  "amount_string found_currency found_amount = PyStr (found_currency @ show_int found_amount)"

text \<open>\<open>next((c for c in cs if c), default)\<close>\<close>

fun first_truthy :: "pystr option list \<Rightarrow> pystr \<Rightarrow> pystr" where
  "first_truthy [] d = d"
| "first_truthy (c # cs) d = (if truthy c then the c else first_truthy cs d)"

text \<open>
  Each stage of the cascade gives \<open>Inr (Some result)\<close> when the function returns
  there, \<open>Inr None\<close> when the search goes on, and \<open>Inl e\<close> when \<open>e\<close> is raised.
\<close>

text \<open>Step 1, the mangled range: \<open>num1_str, num2_str = mangled_match.groups()\<close>.\<close>

definition mangled_stage :: "pystr \<Rightarrow> py_error + (pyval \<times> pyval) option" where
  "mangled_stage text =
     (case re_search no_flags mangled_range_pattern text of
        None \<Rightarrow> Inr None
      | Some mangled_match \<Rightarrow>
          (case m_groups mangled_match of
             [num1_str, num2_str] \<Rightarrow>
               (case clean_and_convert num1_str (Some (str ''thousand'')) of
                  Inl e \<Rightarrow> Inl e
                | Inr val1 \<Rightarrow>
                    (case clean_and_convert num2_str (Some (str ''thousand'')) of
                       Inl e \<Rightarrow> Inl e
                     | Inr val2 \<Rightarrow>
                         (case (val1, val2) of
                            (Some v1, Some v2) \<Rightarrow>
                              Inr (Some (amount_string (str ''$'') (max v1 v2), PyNone))
                          | _ \<Rightarrow> Inr None)))
           | _ \<Rightarrow> Inl ValueError))"

text \<open>
  Step 2, the standard range. The source unpacks \<open>range_match.groups()\<close> into seven
  names, \<open>cur1, num1_str, mult1, cur2, num2_str, mult2, cur3\<close>; a tuple of another
  length raises \<open>ValueError\<close>.
\<close>

definition standard_stage :: "regex \<Rightarrow> pystr \<Rightarrow> py_error + (pyval \<times> pyval) option" where
  "standard_stage pattern text =
     (case re_search IGNORECASE pattern text of
        None \<Rightarrow> Inr None
      | Some range_match \<Rightarrow>
          (case m_groups range_match of
             [cur1, num1_str, mult1, cur2, num2_str, mult2', cur3] \<Rightarrow>
               (let mult2 = py_or mult2' mult1
                in case clean_and_convert num1_str mult1 of
                     Inl e \<Rightarrow> Inl e
                   | Inr val1 \<Rightarrow>
                       (case clean_and_convert num2_str mult2 of
                          Inl e \<Rightarrow> Inl e
                        | Inr val2 \<Rightarrow>
                            (case (val1, val2) of
                               (Some v1, Some v2) \<Rightarrow>
                                 (let found_amount = max v1 v2;
                                      max_val_cur = (if v2 \<ge> v1 then cur2 else cur1);
                                      found_currency =
                                        first_truthy [max_val_cur, cur3, cur1, cur2] (str ''$'')
                                  in Inr (Some (amount_string found_currency found_amount, PyNone)))
                             | _ \<Rightarrow> Inr None)))
           | _ \<Rightarrow> Inl ValueError))"

text \<open>
  Step 3, "up to" and "maximum of": here the conversion sits in a \<open>try\<close> that turns
  every exception into \<open>val = None\<close>.
\<close>

definition upto_stage :: "pystr \<Rightarrow> py_error + (pyval \<times> pyval) option" where
  "upto_stage text =
     (case re_search IGNORECASE upto_pattern text of
        None \<Rightarrow> Inr None
      | Some upto_match \<Rightarrow>
          (case m_groups upto_match of
             [cur1, num_str, mult_str, cur2] \<Rightarrow>
               (let val = (case clean_and_convert num_str mult_str of
                             Inl e \<Rightarrow> None | Inr v \<Rightarrow> v)
                in case val of
                     Some found_amount \<Rightarrow>
                       Inr (Some (amount_string (first_truthy [cur1, cur2] (str ''$''))
                                    found_amount, PyNone))
                   | None \<Rightarrow> Inr None)
           | _ \<Rightarrow> Inl ValueError))"

text \<open>
  Step 4, the single amounts. \<open>patterns_to_check\<close> pairs each pattern with the
  number of groups the loop expects; a match with another number of groups is
  skipped. A hit is the number, the multiplier, the currency and \<open>match.group(0)\<close>.
\<close>

datatype single_kind = Strict | Code | Symbol

definition patterns_to_check :: "(single_kind \<times> regex \<times> nat) list" where
  "patterns_to_check =
     [(Strict, strict_single_pattern, 4), (Code, code_single_pattern, 3),
      (Symbol, symbol_single_pattern, 3)]"

type_synonym hit = "pystr option \<times> pystr option \<times> pystr option \<times> pystr"

definition hit_of :: "single_kind \<Rightarrow> nat \<Rightarrow> rematch \<Rightarrow> hit option" where
  "hit_of kind expected_groups m =
     (let groups = m_groups m
      in if length groups \<noteq> expected_groups then None
         else (case kind of
                 Strict \<Rightarrow>
                   (case groups of
                      [cur1, num_str, mult_str, cur2] \<Rightarrow>
                        Some (num_str, mult_str, py_or cur1 cur2, m_text m)
                    | _ \<Rightarrow> None)
               | _ \<Rightarrow>
                   (case groups of
                      [currency, num_str, mult_str] \<Rightarrow>
                        Some (num_str, mult_str, currency, m_text m)
                    | _ \<Rightarrow> None)))"

definition single_hits :: "pystr \<Rightarrow> hit list" where
  "single_hits text =
     concat (map (\<lambda>(kind, pattern, expected_groups).
                    List.map_filter (hit_of kind expected_groups)
                      (re_finditer IGNORECASE pattern text))
                 patterns_to_check)"

text \<open>
  \<open>is_year = (1990 <= val <= 2050 and mult_str is None and '.' not in num_str)\<close>
\<close>

definition is_year :: "int \<Rightarrow> pystr option \<Rightarrow> pystr \<Rightarrow> bool" where
  "is_year val mult_str num_str =
     (1990 \<le> val \<and> val \<le> 2050 \<and> mult_str = None \<and> 46 \<notin> set num_str)"

type_synonym candidate = "int \<times> pystr option \<times> pystr"

text \<open>What one hit adds to \<open>potential_matches\<close>: nothing, or one candidate.\<close>

definition candidate_of :: "hit \<Rightarrow> py_error + candidate option" where
  "candidate_of h =
     (case h of (num_str, mult_str, currency, match_str) \<Rightarrow>
        (case clean_and_convert num_str mult_str of
           Inl e \<Rightarrow> Inl e
         | Inr None \<Rightarrow> Inr None
         | Inr (Some val) \<Rightarrow>
             if is_year val mult_str (the num_str) then Inr None
             else Inr (Some (val, currency, match_str))))"

fun collect_candidates :: "hit list \<Rightarrow> py_error + candidate list" where
  "collect_candidates [] = Inr []"
| "collect_candidates (h # hs) =
     (case candidate_of h of
        Inl e \<Rightarrow> Inl e
      | Inr c \<Rightarrow>
          (case collect_candidates hs of
             Inl e \<Rightarrow> Inl e
           | Inr cs \<Rightarrow> Inr (case c of None \<Rightarrow> cs | Some x \<Rightarrow> x # cs)))"

definition potential_matches :: "pystr \<Rightarrow> py_error + candidate list" where
  "potential_matches text = collect_candidates (single_hits text)"

text \<open>
  \<open>potential_matches.sort(key=lambda x: x[0], reverse=True)\<close> is a stable sort by
  falling value; the function then returns the first entry's value and currency:
  the value as an integer, the currency beside it.
\<close>

definition single_stage :: "pystr \<Rightarrow> py_error + (pyval \<times> pyval)" where
  "single_stage text =
     (case potential_matches text of
        Inl e \<Rightarrow> Inl e
      | Inr pm \<Rightarrow>
          (case sort_key (\<lambda>x. - fst x) pm of
             [] \<Rightarrow> Inr (PyNone, PyNone)
           | (found_amount, found_currency, match_str) # _ \<Rightarrow>
               Inr (PyInt found_amount, of_opt found_currency)))"

text \<open>
  The body of \<open>extract_amount\<close> after the patterns are compiled. Only the compilation
  of the standard range pattern is guarded: on \<open>re.error\<close> the function returns
  \<open>(None, None)\<close> at once. The argument is the outcome of that compilation.
\<close>

datatype re_error = ReError

definition extract_amount_with :: "re_error + regex \<Rightarrow> pystr \<Rightarrow> py_error + (pyval \<times> pyval)" where
  "extract_amount_with compiled text =
     (case compiled of
        Inl e \<Rightarrow> Inr (PyNone, PyNone)
      | Inr pattern \<Rightarrow>
          (case mangled_stage text of
             Inl e \<Rightarrow> Inl e
           | Inr (Some res) \<Rightarrow> Inr res
           | Inr None \<Rightarrow>
               (case standard_stage pattern text of
                  Inl e \<Rightarrow> Inl e
                | Inr (Some res) \<Rightarrow> Inr res
                | Inr None \<Rightarrow>
                    (case upto_stage text of
                       Inl e \<Rightarrow> Inl e
                     | Inr (Some res) \<Rightarrow> Inr res
                     | Inr None \<Rightarrow> single_stage text))))"

text \<open>The pattern in the source is well formed, so its compilation succeeds.\<close>

definition extract_amount :: "pystr \<Rightarrow> py_error + (pyval \<times> pyval)" where
  "extract_amount text = extract_amount_with (Inr standard_range_pattern) text"


section \<open>The amount of a record\<close>

text \<open>
  A record is a Python dictionary from field names to values; the values the
  scraper writes are strings, integers and \<open>None\<close>.
\<close>

type_synonym grant = "string \<rightharpoonup> pyval"

fun truthy_val :: "pyval \<Rightarrow> bool" where
  "truthy_val PyNone = False"
| "truthy_val (PyStr s) = (s \<noteq> [])"
| "truthy_val (PyInt n) = (n \<noteq> 0)"

text \<open>
  Lines 653 and 654: \<open>amount_with_currency, _ = extract_amount(full_description_text)\<close>,
  then \<open>grant['amount'] = amount_with_currency\<close>: the first component of the pair
  becomes the amount, the second is dropped.
\<close>

definition amount_with_currency :: "pystr \<Rightarrow> py_error + pyval" where
  "amount_with_currency full_description_text =
     (case extract_amount full_description_text of
        Inl e \<Rightarrow> Inl e
      | Inr (a, c) \<Rightarrow> Inr a)"

text \<open>The format \<open>{n:,}\<close>: decimal digits in groups of three from the right.\<close>

fun commas_rev :: "pystr \<Rightarrow> pystr" where
  "commas_rev (a # b # c # d # xs) = a # b # c # 44 # commas_rev (d # xs)"
| "commas_rev xs = xs"

definition comma_group :: "int \<Rightarrow> pystr" where
  "comma_group n =
     (if n < 0 then 45 # rev (commas_rev (rev (nat_digits (- n))))
      else rev (commas_rev (rev (nat_digits n))))"

definition isdigit :: "pystr \<Rightarrow> bool" where
  "isdigit s = (s \<noteq> [] \<and> list_all is_digit s)"

text \<open>
  \<open>clean_amount_value\<close>, applied to the amount of each record before the file is
  written: a number becomes \<open>$\<close> and the grouped digits, a string that starts with
  a currency sign is reformatted from its digits (\<open>{value:,.0f}\<close>, or left as it is
  when \<open>float\<close> fails), any other string is kept.
\<close>

definition clean_amount_value :: "pyval \<Rightarrow> pyval" where
  "clean_amount_value amount_str =
     (if \<not> truthy_val amount_str then PyNone
      else case amount_str of
             PyNone \<Rightarrow> PyNone
           | PyInt n \<Rightarrow> PyStr (36 # comma_group n)
           | PyStr s \<Rightarrow>
               if isdigit s then PyStr (36 # comma_group (digits_val s))
               else (case s of
                       [] \<Rightarrow> PyStr s
                     | currency # _ \<Rightarrow>
                         if currency = 36 \<or> currency = 163 \<or> currency = 8364 then
                           (case py_float (re_sub no_flags (NCls [(48, 57), (46, 46)]) (\<lambda>m. []) s) of
                              Inl e \<Rightarrow> PyStr s
                            | Inr None \<Rightarrow> PyStr (currency # str ''inf'')
                            | Inr (Some (a, b)) \<Rightarrow>
                                PyStr (currency # comma_group (round_half_even a b)))
                         else PyStr s))"


section \<open>\<open>parse_date\<close>\<close>

subsection \<open>\<open>datetime.strptime\<close> for the directives of the format list\<close>

text \<open>
  \<open>strptime\<close> belongs to Python's library; it is modelled as the library works, for
  the directives the scraper uses and the C locale (English month names): the
  format is turned into a pattern, one group for each directive, white space in the
  format matching any white space; the pattern is matched without regard to case
  at the start of the text and has to cover all of it; the fields are then read
  from the groups and have to form a date of the calendar. Anything else is a
  \<open>ValueError\<close>, here \<open>None\<close>.
\<close>

record datetime =
  dt_year :: int
  dt_month :: int
  dt_day :: int

definition a_month :: "string list" where
  "a_month = [''jan'', ''feb'', ''mar'', ''apr'', ''may'', ''jun'',
              ''jul'', ''aug'', ''sep'', ''oct'', ''nov'', ''dec'']"

definition f_month :: "string list" where
  "f_month = [''january'', ''february'', ''march'', ''april'', ''may'', ''june'', ''july'',
              ''august'', ''september'', ''october'', ''november'', ''december'']"

text \<open>The names as alternatives, the longest first, as the library orders them.\<close>

definition seq_to_re :: "string list \<Rightarrow> regex" where
  "seq_to_re names = alts (map lit (sort_key (\<lambda>s. - int (length s)) names))"

fun directive_re :: "char \<Rightarrow> regex" where
  "directive_re c =
     (if c = CHR ''d'' then
        alts [Seq (chr CHR ''3'') (Cls [(48, 49)]), Seq (Cls [(49, 50)]) digit,
              Seq (chr CHR ''0'') (Cls [(49, 57)]), Cls [(49, 57)],
              Seq (chr CHR '' '') (Cls [(49, 57)])]
      else if c = CHR ''m'' then
        alts [Seq (chr CHR ''1'') (Cls [(48, 50)]), Seq (chr CHR ''0'') (Cls [(49, 57)]),
              Cls [(49, 57)]]
      else if c = CHR ''y'' then Seq digit digit
      else if c = CHR ''Y'' then seqs [digit, digit, digit, digit]
      else if c = CHR ''b'' then seq_to_re a_month
      else if c = CHR ''B'' then seq_to_re f_month
      else Eps)"

fun format_items :: "string \<Rightarrow> nat \<Rightarrow> regex list" where
  "format_items [] n = []"
| "format_items [c] n = [if c = CHR '' '' then plus space else chr c]"
| "format_items (c # d # cs) n =
     (if c = CHR ''%'' then Grp n (directive_re d) # format_items cs (Suc n)
      else (if c = CHR '' '' then plus space else chr c) # format_items (d # cs) n)"

fun format_directives :: "string \<Rightarrow> string" where
  "format_directives [] = []"
| "format_directives [c] = []"
| "format_directives (c # d # cs) =
     (if c = CHR ''%'' then d # format_directives cs else format_directives (d # cs))"

definition format_regex :: "string \<Rightarrow> regex" where
  "format_regex fmt = seqs (format_items fmt 1)"

text \<open>\<open>pattern.match\<close>: a match that starts at the first character.\<close>

definition re_match :: "flags \<Rightarrow> regex \<Rightarrow> pystr \<Rightarrow> rematch option" where
  "re_match f r s =
     (case run f [M r] (MS None s (int (length s)) []) of
        None \<Rightarrow> None
      | Some st \<Rightarrow> Some (mk_match r (int (length s)) s (int (length s)) st))"

fun index_of :: "pystr \<Rightarrow> string list \<Rightarrow> int \<Rightarrow> int" where
  "index_of s [] i = i"
| "index_of s (n # ns) i = (if str n = s then i else index_of s ns (i + 1))"

text \<open>One field: the directive and the text of its group update year, month or day.\<close>

definition set_field :: "char \<Rightarrow> pystr \<Rightarrow> datetime \<Rightarrow> datetime" where
  "set_field c t dt =
     (if c = CHR ''d'' then dt\<lparr>dt_day := digits_val (strip t)\<rparr>
      else if c = CHR ''m'' then dt\<lparr>dt_month := digits_val t\<rparr>
      else if c = CHR ''y'' then
        dt\<lparr>dt_year := (if digits_val t \<le> 68 then digits_val t + 2000 else digits_val t + 1900)\<rparr>
      else if c = CHR ''Y'' then dt\<lparr>dt_year := digits_val t\<rparr>
      else if c = CHR ''b'' then dt\<lparr>dt_month := index_of (lower_str t) a_month 1\<rparr>
      else if c = CHR ''B'' then dt\<lparr>dt_month := index_of (lower_str t) f_month 1\<rparr>
      else dt)"

fun set_fields :: "string \<Rightarrow> pystr option list \<Rightarrow> datetime \<Rightarrow> datetime" where
  "set_fields (c # cs) (Some t # ts) dt = set_fields cs ts (set_field c t dt)"
| "set_fields (c # cs) (None # ts) dt = set_fields cs ts dt"
| "set_fields _ _ dt = dt"

definition is_leap :: "int \<Rightarrow> bool" where
  "is_leap y = (y mod 4 = 0 \<and> (y mod 100 \<noteq> 0 \<or> y mod 400 = 0))"

definition days_in_month :: "int \<Rightarrow> int \<Rightarrow> int" where
  "days_in_month y m =
     (if m = 2 then (if is_leap y then 29 else 28)
      else if m = 4 \<or> m = 6 \<or> m = 9 \<or> m = 11 then 30 else 31)"

definition valid_date :: "datetime \<Rightarrow> bool" where
  "valid_date dt =
     (1 \<le> dt_year dt \<and> dt_year dt \<le> 9999 \<and> 1 \<le> dt_month dt \<and> dt_month dt \<le> 12 \<and>
      1 \<le> dt_day dt \<and> dt_day dt \<le> days_in_month (dt_year dt) (dt_month dt))"

definition strptime :: "pystr \<Rightarrow> string \<Rightarrow> datetime option" where
  "strptime data_string fmt =
     (case re_match IGNORECASE (format_regex fmt) data_string of
        None \<Rightarrow> None
      | Some found \<Rightarrow>
          if m_end found \<noteq> length data_string then None
          else (let dt = set_fields (format_directives fmt) (m_groups found)
                           \<lparr>dt_year = 1900, dt_month = 1, dt_day = 1\<rparr>
                in if valid_date dt then Some dt else None))"

subsection \<open>The parser\<close>

definition formats :: "string list" where
  "formats = [''%d-%b-%y'', ''%d-%b-%Y'', ''%d %b %Y'', ''%d %B %Y'',
              ''%d/%m/%y'', ''%d/%m/%Y'', ''%m/%d/%y'', ''%m/%d/%Y'',
              ''%Y-%m-%d'', ''%d %B %Y'', ''%d %b %Y'']"

text \<open>
  The three substitutions of the normalisation: \<open>(\d+)(th|st|nd|rd)\b\<close> replaced by
  its first group, the zero-width characters U+200B to U+200D and U+FEFF
  removed, \<open>\s+\<close> replaced by one space.
\<close>

definition ordinal_pattern :: regex where
  "ordinal_pattern =
     seqs [Grp 1 (plus digit), Grp 2 (alts [lit ''th'', lit ''st'', lit ''nd'', lit ''rd'']), WordB]"

definition first_group :: "rematch \<Rightarrow> pystr" where
  "first_group m = (case m_groups m of Some g # _ \<Rightarrow> g | _ \<Rightarrow> [])"

definition normalize_date :: "pystr \<Rightarrow> pystr" where
  "normalize_date date_str =
     re_sub no_flags (plus space) (\<lambda>m. str '' '')
       (re_sub no_flags (Cls [(8203, 8205), (65279, 65279)]) (\<lambda>m. [])
          (re_sub no_flags ordinal_pattern first_group (strip date_str)))"

fun try_formats :: "pystr \<Rightarrow> string list \<Rightarrow> datetime option" where
  "try_formats cleaned [] = None"
| "try_formats cleaned (fmt # fmts) =
     (case strptime cleaned fmt of Some dt \<Rightarrow> Some dt | None \<Rightarrow> try_formats cleaned fmts)"

text \<open>
  The two later strategies belong to the environment: \<open>locale_strptime lang cleaned\<close>
  is the outcome of \<open>strptime(cleaned, "%d %b %Y")\<close> under the locale \<open>lang\<close>
  (\<open>None\<close> when setting the locale or parsing raises), \<open>dateutil_parse\<close> is the
  outcome of \<open>dateutil.parser.parse\<close> (\<open>None\<close> when it raises).
\<close>

record date_env =
  locale_strptime :: "string \<Rightarrow> pystr \<Rightarrow> datetime option"
  dateutil_parse :: "pystr \<Rightarrow> datetime option"

fun try_locales :: "date_env \<Rightarrow> pystr \<Rightarrow> string list \<Rightarrow> datetime option" where
  "try_locales env cleaned [] = None"
| "try_locales env cleaned (lang # langs) =
     (case locale_strptime env lang cleaned of
        Some dt \<Rightarrow> Some dt
      | None \<Rightarrow> try_locales env cleaned langs)"

definition parse_date :: "date_env \<Rightarrow> pystr \<Rightarrow> datetime option" where
  "parse_date env date_str =
     (let cleaned = normalize_date date_str
      in case try_formats cleaned formats of
           Some dt \<Rightarrow> Some dt
         | None \<Rightarrow>
             (case try_locales env cleaned [''en_US'', ''fr_FR'', ''es_ES''] of
                Some dt \<Rightarrow> Some dt
              | None \<Rightarrow> dateutil_parse env cleaned))"

section \<open>The eligibility summary\<close>

definition sentinel :: pystr where
  "sentinel = str ''See official guidelines''"

definition eligibility_keywords :: "string list" where
  "eligibility_keywords =
     [''Eligibility Criteria'', ''Who can apply?'', ''Eligible Applicants'', ''Eligibility'']"

definition end_markers :: "string list" where
  "end_markers =
     [''Funding Information'', ''How to Apply'', ''Application Process'', ''Award Information'',
      ''Prize Information'', ''Focus Areas'', ''Thematic Areas'', ''Objectives'', ''Benefits'']"

text \<open>
  \<open>(?:^|[\s.:;])\s*({re.escape(keyword)})\b\<close>, searched with \<open>IGNORECASE | MULTILINE\<close>.
\<close>

definition heading_pattern :: "string \<Rightarrow> regex" where
  "heading_pattern keyword =
     seqs [Alt Bol (Cls (space_ranges @ [(46, 46), (58, 59)])), star space,
           Grp 1 (lit keyword), WordB]"

text \<open>
  The loop over the keywords stops at the first keyword found; it gives
  \<open>match.start(1)\<close> and \<open>match.group(1)\<close>.
\<close>

fun find_keyword :: "pystr \<Rightarrow> string list \<Rightarrow> (nat \<times> pystr) option" where
  "find_keyword full_description_text [] = None"
| "find_keyword full_description_text (keyword # keywords) =
     (case re_search IGNORECASE_MULTILINE (heading_pattern keyword) full_description_text of
        None \<Rightarrow> find_keyword full_description_text keywords
      | Some m \<Rightarrow>
          (case (m_starts m, m_groups m) of
             (Some i # _, Some g # _) \<Rightarrow> Some (i, g)
           | _ \<Rightarrow> find_keyword full_description_text keywords))"

text \<open>The loop over the end markers: \<open>end_pos = min(end_pos, marker_match.start())\<close>.\<close>

fun find_end :: "pystr \<Rightarrow> string list \<Rightarrow> nat \<Rightarrow> nat" where
  "find_end eligibility_text [] end_pos = end_pos"
| "find_end eligibility_text (marker # markers) end_pos =
     (case re_search IGNORECASE_MULTILINE (heading_pattern marker) eligibility_text of
        None \<Rightarrow> find_end eligibility_text markers end_pos
      | Some marker_match \<Rightarrow>
          find_end eligibility_text markers (min end_pos (m_start marker_match)))"

text \<open>
  The text after the keyword, without leading colons and white space
  (\<open>re.sub(r'^[:\s]+', '', ...)\<close>), up to the first end marker, stripped.
\<close>

definition eligibility_segment :: "pystr \<Rightarrow> nat \<Rightarrow> pystr \<Rightarrow> pystr" where
  "eligibility_segment full_description_text eligibility_start_index found_keyword =
     (let start_pos = eligibility_start_index + length found_keyword;
          eligibility_text =
            re_sub no_flags (Seq Bol (plus (Cls ((58, 58) # space_ranges)))) (\<lambda>m. [])
              (strip (drop start_pos full_description_text));
          end_pos = find_end eligibility_text end_markers (length eligibility_text)
      in strip (take end_pos eligibility_text))"

text \<open>\<open>s.rfind(c, 0, e)\<close>: the last index below \<open>e\<close> where \<open>c\<close> stands, or \<open>-1\<close>.\<close>

definition rfind :: "int \<Rightarrow> pystr \<Rightarrow> nat \<Rightarrow> int" where
  "rfind c s e =
     (if c \<in> set (take e s)
      then int (length (take e s)) - 1 - int (length (takeWhile (\<lambda>x. x \<noteq> c) (rev (take e s))))
      else - 1)"

definition max_len :: nat where
  "max_len = 300"

text \<open>
  The summary of a segment. \<open>cutoff_point > max_len * 0.5\<close> compares an integer
  with 150.0, which is \<open>2 * cutoff_point > max_len\<close>.
\<close>

definition summarize_segment :: "pystr \<Rightarrow> pystr" where
  "summarize_segment eligibility_text_segment =
     (if length eligibility_text_segment > max_len then
        (let cutoff_point = rfind 46 eligibility_text_segment max_len
         in if cutoff_point \<noteq> - 1 \<and> 2 * cutoff_point > int max_len
            then take (nat (cutoff_point + 1)) eligibility_text_segment
            else strip (take max_len eligibility_text_segment) @ str ''...'')
      else if length eligibility_text_segment > 5 then eligibility_text_segment
      else sentinel)"

text \<open>
  The value of \<open>grant['eligibility']\<close> after the block: the default is the sentinel,
  and the summary replaces it when it differs from the sentinel.
\<close>

definition eligibility_of :: "pystr \<Rightarrow> pystr" where
  "eligibility_of full_description_text =
     (case find_keyword full_description_text eligibility_keywords of
        None \<Rightarrow> sentinel
      | Some (eligibility_start_index, found_keyword) \<Rightarrow>
          (let eligibility_summary =
                 summarize_segment
                   (eligibility_segment full_description_text eligibility_start_index found_keyword)
           in if eligibility_summary \<noteq> sentinel then eligibility_summary else sentinel))"

section \<open>The organization of a record\<close>

subsection \<open>String helpers\<close>

text \<open>\<open>s.split(c)\<close>, \<open>s.replace('-', ' ')\<close>, \<open>s.title()\<close>, \<open>sub in s\<close> and \<open>max(xs, key=len)\<close>.\<close>

fun split_on :: "int \<Rightarrow> pystr \<Rightarrow> pystr list" where
  "split_on c [] = [[]]"
| "split_on c (x # xs) =
     (if x = c then [] # split_on c xs
      else (case split_on c xs of [] \<Rightarrow> [[x]] | y # ys \<Rightarrow> (x # y) # ys))"

definition hyphens_to_spaces :: "pystr \<Rightarrow> pystr" where
  "hyphens_to_spaces s = map (\<lambda>c. if c = 45 then 32 else c) s"

fun title_from :: "bool \<Rightarrow> pystr \<Rightarrow> pystr" where
  "title_from prev_cased [] = []"
| "title_from prev_cased (c # cs) =
     (if is_upper c \<or> is_lower c
      then (if prev_cased then lower_chr c else upper_chr c) # title_from True cs
      else c # title_from False cs)"

definition title_case :: "pystr \<Rightarrow> pystr" where
  "title_case s = title_from False s"

fun starts_with :: "pystr \<Rightarrow> pystr \<Rightarrow> bool" where
  "starts_with [] s = True"
| "starts_with (p # ps) [] = False"
| "starts_with (p # ps) (c # cs) = (p = c \<and> starts_with ps cs)"

fun contains :: "pystr \<Rightarrow> pystr \<Rightarrow> bool" where
  "contains sub [] = (sub = [])"
| "contains sub (c # cs) = (starts_with sub (c # cs) \<or> contains sub cs)"

fun max_by_len :: "pystr \<Rightarrow> pystr list \<Rightarrow> pystr" where
  "max_by_len best [] = best"
| "max_by_len best (x # xs) = max_by_len (if length x > length best then x else best) xs"

text \<open>\<open>clean_text\<close>: typographic quotes, dashes and the no-break space are replaced,
  white space is collapsed, the ends are stripped; a falsy text is returned as it is.\<close>

definition replace_unicode :: "int \<Rightarrow> int" where
  "replace_unicode c =
     (if c = 8217 \<or> c = 8216 then 39
      else if c = 8220 \<or> c = 8221 then 34
      else if c = 8211 \<or> c = 8212 then 45
      else if c = 160 then 32
      else c)"

definition clean_text :: "pystr \<Rightarrow> pystr" where
  "clean_text s =
     (if s = [] then s
      else strip (re_sub no_flags (plus space) (\<lambda>m. str '' '') (map replace_unicode s)))"

subsection \<open>\<open>extract_organization\<close>\<close>

definition unknown_organization :: pystr where
  "unknown_organization = str ''Unknown Organization''"

definition organization_not_found :: pystr where
  "organization_not_found = str ''Organization Not Found''"

definition org_class :: regex where  \<comment> \<open>\<open>[A-Za-z\s&'-]\<close>\<close>
  "org_class = Cls ([(65, 90), (97, 122)] @ space_ranges @ [(38, 39), (45, 45)])"

definition capital :: regex where  \<comment> \<open>\<open>[A-Z]\<close>\<close>
  "capital = Cls [(65, 90)]"

text \<open>
  The three title patterns, searched with \<open>IGNORECASE\<close>:
  \<open>(?:by|from|at|for)\s+([A-Z][A-Za-z\s&'-]+?(?=\s+(Grant|Award|Program|Prize|Fellowship)))\<close>,
  \<open>(?:by|from|at|for)\s+([A-Z][A-Za-z\s&'-]+?(?=\.|$))\<close> and
  \<open>(?:presented by|sponsored by|supported by)\s+([A-Z][A-Za-z\s&'-]+)\<close>.
\<close>

definition title_org_patterns :: "regex list" where
  "title_org_patterns =
     [seqs [alts [lit ''by'', lit ''from'', lit ''at'', lit ''for''], plus space,
            Grp 1 (seqs [capital, lazy_plus org_class,
                         Look (Seq (plus space)
                                 (Grp 2 (alts [lit ''Grant'', lit ''Award'', lit ''Program'',
                                               lit ''Prize'', lit ''Fellowship''])))])],
      seqs [alts [lit ''by'', lit ''from'', lit ''at'', lit ''for''], plus space,
            Grp 1 (seqs [capital, lazy_plus org_class, Look (Alt (chr CHR ''.'') Eol)])],
      seqs [alts [lit ''presented by'', lit ''sponsored by'', lit ''supported by''], plus space,
            Grp 1 (Seq capital (plus org_class))]]"

text \<open>
  The three description patterns:
  \<open>(?:The|A|An)\s+([A-Z][A-Za-z\s&'-]+?(?=\s+(is|has|announces|offers)))\<close>,
  \<open>([A-Z][A-Za-z\s&'-]+?(?=\s+(Grant|Award|Program|Initiative)))\<close> and
  \<open>(?:funded by|sponsored by)\s+([A-Z][A-Za-z\s&'-]+)\<close>.
\<close>

definition desc_org_patterns :: "regex list" where
  "desc_org_patterns =
     [seqs [alts [lit ''The'', lit ''A'', lit ''An''], plus space,
            Grp 1 (seqs [capital, lazy_plus org_class,
                         Look (Seq (plus space)
                                 (Grp 2 (alts [lit ''is'', lit ''has'', lit ''announces'',
                                               lit ''offers''])))])],
      Grp 1 (seqs [capital, lazy_plus org_class,
                   Look (Seq (plus space)
                           (Grp 2 (alts [lit ''Grant'', lit ''Award'', lit ''Program'',
                                         lit ''Initiative''])))]),
      seqs [alts [lit ''funded by'', lit ''sponsored by''], plus space,
            Grp 1 (Seq capital (plus org_class))]]"

text \<open>
  The loop over a pattern list: the first pattern that matches with a truthy group
  decides; \<open>org.strip("'s").strip()\<close> is cleaned and returned.
\<close>

fun first_org :: "regex list \<Rightarrow> pystr \<Rightarrow> pystr option" where
  "first_org [] s = None"
| "first_org (pattern # patterns) s =
     (case re_search IGNORECASE pattern s of
        None \<Rightarrow> first_org patterns s
      | Some m \<Rightarrow>
          (case filter truthy (m_groups m) of
             Some org # _ \<Rightarrow> Some (clean_text (strip (strip_chars (str [CHR 0x27, CHR ''s'']) org)))
           | _ \<Rightarrow> first_org patterns s))"

definition generic_labels :: "pystr list" where
  "generic_labels =
     map str [''com'', ''org'', ''net'', ''gov'', ''edu'', ''co'', ''ac'', ''uk'', ''www'']"

text \<open>Priority 2: the longest label of the host that is not a generic one.\<close>

definition org_from_domain :: "pystr \<Rightarrow> pystr option" where
  "org_from_domain url =
     (let parts = split_on 47 url;
          domain = (if length parts > 2 then parts ! 2 else []);
          domain_parts = filter (\<lambda>p. lower_str p \<notin> set generic_labels) (split_on 46 domain)
      in case domain_parts of
           [] \<Rightarrow> None
         | p # ps \<Rightarrow> Some (clean_text (title_case (hyphens_to_spaces (max_by_len p ps)))))"

text \<open>
  Priority 5, the patterns \<open>https?://(?:www\.)?([a-zA-Z0-9-]+)\.\<close> and
  \<open>https?://(?:www\.)?[a-zA-Z0-9-]+\.([a-zA-Z0-9-]+)\.\<close>, searched without flags.
\<close>

definition host_label :: regex where  \<comment> \<open>\<open>[a-zA-Z0-9-]+\<close>\<close>
  "host_label = plus (Cls [(97, 122), (65, 90), (48, 57), (45, 45)])"

definition url_org_patterns :: "regex list" where
  "url_org_patterns =
     [seqs [lit ''http'', opt (chr CHR ''s''), lit ''://'', opt (lit ''www.''),
            Grp 1 host_label, chr CHR ''.''],
      seqs [lit ''http'', opt (chr CHR ''s''), lit ''://'', opt (lit ''www.''),
            host_label, chr CHR ''.'', Grp 1 host_label, chr CHR ''.'']]"

fun first_url_org :: "regex list \<Rightarrow> pystr \<Rightarrow> pystr option" where
  "first_url_org [] url = None"
| "first_url_org (pattern # patterns) url =
     (case re_search no_flags pattern url of
        None \<Rightarrow> first_url_org patterns url
      | Some m \<Rightarrow>
          (case m_groups m of
             Some g # _ \<Rightarrow>
               if g \<noteq> [] \<and> lower_str g \<notin> set generic_labels
               then Some (clean_text (title_case (hyphens_to_spaces g)))
               else first_url_org patterns url
           | _ \<Rightarrow> first_url_org patterns url))"

text \<open>
  \<open>urlparse(url).netloc\<close> belongs to Python's library; it is modelled as the text
  between the \<open>//\<close> that follows the scheme and the next \<open>/\<close>, \<open>?\<close> or \<open>#\<close>,
  and as empty when there is no such \<open>//\<close>.
\<close>

definition scheme_pattern :: regex where
  "scheme_pattern =
     seqs [Cls [(97, 122), (65, 90)], star (Cls [(97, 122), (65, 90), (48, 57), (43, 43), (45, 46)]),
           chr CHR '':'']"

definition netloc :: "pystr \<Rightarrow> pystr" where
  "netloc url =
     (let after_scheme = (case re_match no_flags scheme_pattern url of
                            None \<Rightarrow> url | Some m \<Rightarrow> drop (m_end m) url)
      in if starts_with (str ''//'') after_scheme
         then takeWhile (\<lambda>c. c \<noteq> 47 \<and> c \<noteq> 63 \<and> c \<noteq> 35) (drop 2 after_scheme)
         else [])"

text \<open>The last resort: the host without \<open>^www\.\<close> and without \<open>\.(com|org|net|gov|edu|co|ac|uk)$\<close>.\<close>

definition org_from_hostname :: "pystr \<Rightarrow> pystr option" where
  "org_from_hostname url =
     (let hostname = netloc url
      in if hostname = [] then None
         else (let org_name =
                     re_sub no_flags
                       (seqs [chr CHR ''.'',
                              alts [lit ''com'', lit ''org'', lit ''net'', lit ''gov'', lit ''edu'',
                                    lit ''co'', lit ''ac'', lit ''uk''], Eol]) (\<lambda>m. [])
                       (re_sub no_flags (Seq Bol (lit ''www.'')) (\<lambda>m. []) hostname)
               in if org_name = [] then None
                  else Some (clean_text (title_case (hyphens_to_spaces (hd (split_on 46 org_name)))))))"

text \<open>
  \<open>extract_organization(article, grant)\<close>. The arguments are \<open>grant.get('title', '')\<close>,
  \<open>grant.get('applicationUrl', '')\<close>, \<open>grant.get('description', '')\<close> and the text
  of the organization tag of the listing, if the listing is given and has one.
  \<open>re.search\<close> on a value that is not a string raises \<open>TypeError\<close>; the errors of
  the first URL step are caught there.
\<close>

definition extract_organization ::
  "pystr option \<Rightarrow> pyval \<Rightarrow> pyval \<Rightarrow> pyval \<Rightarrow> py_error + pystr" where
  "extract_organization org_tag_text title url desc =
     (case title of
        PyNone \<Rightarrow> Inl TypeError
      | PyInt n \<Rightarrow> Inl TypeError
      | PyStr title_str \<Rightarrow>
          (case first_org title_org_patterns title_str of
             Some org \<Rightarrow> Inr org
           | None \<Rightarrow>
               (case (if truthy_val url
                      then (case url of PyStr u \<Rightarrow> org_from_domain u | _ \<Rightarrow> None)
                      else None) of
                  Some org \<Rightarrow> Inr org
                | None \<Rightarrow>
                    (case (if truthy_val desc
                           then (case desc of
                                   PyStr d \<Rightarrow>
                                     Inr (first_org desc_org_patterns
                                            (if 46 \<in> set d then hd (split_on 46 d) else d))
                                 | _ \<Rightarrow> Inl TypeError)
                           else Inr None) of
                       Inl e \<Rightarrow> Inl e
                     | Inr (Some org) \<Rightarrow> Inr org
                     | Inr None \<Rightarrow>
                         (case (case org_tag_text of
                                  None \<Rightarrow> None
                                | Some t \<Rightarrow> if strip t \<noteq> [] then Some (clean_text (strip t)) else None) of
                            Some org \<Rightarrow> Inr org
                          | None \<Rightarrow>
                              if truthy_val url then
                                (case url of
                                   PyStr u \<Rightarrow>
                                     (case first_url_org url_org_patterns u of
                                        Some org \<Rightarrow> Inr org
                                      | None \<Rightarrow>
                                          (case org_from_hostname u of
                                             Some org \<Rightarrow> Inr org
                                           | None \<Rightarrow> Inr unknown_organization))
                                 | _ \<Rightarrow> Inl TypeError)
                              else Inr unknown_organization)))))"

subsection \<open>Post-processing (lines 456 to 462)\<close>

text \<open>
  \<open>(https?://|www\.)\<close> and \<open>\b(Trust|Foundation|Fund|Org(a?nization)?|Programme?)\b\<close>
  are removed without regard to case, then the characters of \<open>" -_./"\<close> are
  stripped from both ends; a result shorter than 3 characters becomes the sentinel.
\<close>

definition protocol_pattern :: regex where
  "protocol_pattern =
     Grp 1 (Alt (seqs [lit ''http'', opt (chr CHR ''s''), lit ''://'']) (lit ''www.''))"

definition suffix_word_pattern :: regex where
  "suffix_word_pattern =
     seqs [WordB,
           Grp 1 (alts [lit ''Trust'', lit ''Foundation'', lit ''Fund'',
                        Seq (lit ''Org'') (opt (Grp 2 (Seq (opt (chr CHR ''a'')) (lit ''nization'')))),
                        Seq (lit ''Programm'') (opt (chr CHR ''e''))]),
           WordB]"

definition clean_organization :: "pystr \<Rightarrow> pystr" where
  "clean_organization organization =
     (let cleaned =
            strip_chars (str '' -_./'')
              (re_sub IGNORECASE suffix_word_pattern (\<lambda>m. [])
                 (re_sub IGNORECASE protocol_pattern (\<lambda>m. []) organization))
      in if length cleaned < 3 then unknown_organization else cleaned)"

text \<open>The guard of line 457: only a truthy name other than the two sentinels is cleaned.\<close>

definition post_process :: "pystr \<Rightarrow> pystr" where
  "post_process organization =
     (if organization \<noteq> [] \<and> organization \<noteq> unknown_organization \<and>
         organization \<noteq> organization_not_found
      then clean_organization organization
      else organization)"

text \<open>Lines 454 to 462 together: the organization of the candidate record.\<close>

definition candidate_organization ::
  "pystr option \<Rightarrow> pyval \<Rightarrow> pyval \<Rightarrow> pyval \<Rightarrow> py_error + pystr" where
  "candidate_organization org_tag_text title url desc =
     (case extract_organization org_tag_text title url desc of
        Inl e \<Rightarrow> Inl e
      | Inr organization \<Rightarrow> Inr (post_process organization))"

subsection \<open>The batch pass over records with "Organization Not Found" (lines 753 to 831)\<close>

definition tld_labels :: "pystr list" where
  "tld_labels = map str [''com'', ''org'', ''net'', ''gov'', ''edu'', ''co'', ''ac'']"

text \<open>\<open>extract_org_from_url\<close>: \<open>None\<close> when the URL has no third \<open>/\<close>-separated part.\<close>

definition extract_org_from_url :: "pystr \<Rightarrow> pystr option" where
  "extract_org_from_url url =
     (let url_parts = split_on 47 url
      in if length url_parts > 2 then
           (let domain = url_parts ! 2; domain_parts = split_on 46 domain
            in if length domain_parts \<ge> 2 then
                 (let org_name = domain_parts ! (length domain_parts - 2)
                  in if lower_str org_name \<notin> set tld_labels
                     then Some (title_case (hyphens_to_spaces org_name))
                     else if length domain_parts > 2
                     then Some (title_case (hyphens_to_spaces
                                  (domain_parts ! (length domain_parts - 3))))
                     else Some domain)
               else Some domain)
         else None)"

definition name_class :: regex where  \<comment> \<open>\<open>[\w\s&\-',.]\<close>\<close>
  "name_class = Cls (word_ranges @ space_ranges @ [(38, 39), (44, 46)])"

text \<open>
  \<open>([\w\s&\-',.]+?)(?:'s|s'|s) (?:Grant|Award|Prize|Program|Programme|Initiative|Fund)\<close>
  and \<open>(?:by|from|sponsored by|offered by|from the|by the) ([\w\s&\-',.]+)\<close>,
  searched without flags.
\<close>

definition batch_title_patterns :: "regex list" where
  "batch_title_patterns =
     [seqs [Grp 1 (lazy_plus name_class),
            alts [lit [CHR 0x27, CHR ''s''], lit [CHR ''s'', CHR 0x27], lit ''s''], chr CHR '' '',
            alts [lit ''Grant'', lit ''Award'', lit ''Prize'', lit ''Program'', lit ''Programme'',
                  lit ''Initiative'', lit ''Fund'']],
      seqs [alts [lit ''by'', lit ''from'', lit ''sponsored by'', lit ''offered by'',
                  lit ''from the'', lit ''by the''], chr CHR '' '', Grp 1 (plus name_class)]]"

text \<open>
  The loop over the two patterns: the first match whose stripped group has more than
  3 and fewer than 50 characters sets the organization and ends the loop.
\<close>

fun batch_title_org :: "regex list \<Rightarrow> pystr \<Rightarrow> pystr option" where
  "batch_title_org [] title = None"
| "batch_title_org (pattern # patterns) title =
     (case re_search no_flags pattern title of
        None \<Rightarrow> batch_title_org patterns title
      | Some org_match \<Rightarrow>
          (case m_groups org_match of
             Some g # _ \<Rightarrow>
               if 3 < length (strip g) \<and> length (strip g) < 50 then Some (strip g)
               else batch_title_org patterns title
           | _ \<Rightarrow> batch_title_org patterns title))"

text \<open>The generic names by keyword of the title, then the raw domain.\<close>

definition generic_organization :: "pystr \<Rightarrow> pystr \<Rightarrow> pystr" where
  "generic_organization title url =
     (if contains (str ''UN'') title \<or> contains (str ''United Nations'') title
      then str ''United Nations''
      else if contains (str ''UNESCO'') title then str ''UNESCO''
      else if contains (str ''WHO'') title then str ''World Health Organization''
      else if contains (str ''EU'') title \<or> contains (str ''European Union'') title
      then str ''European Union''
      else if contains (str ''Foundation'') title then
        (case re_search no_flags (Grp 1 (Seq (plus name_class) (lit ''Foundation''))) title of
           Some foundation_match \<Rightarrow> (case m_groups foundation_match of
                                      Some g # _ \<Rightarrow> g | _ \<Rightarrow> str ''Foundation Grant'')
         | None \<Rightarrow> str ''Foundation Grant'')
      else if contains (str ''Award'') title then str ''Award Program''
      else if contains (str ''Prize'') title then str ''Prize Program''
      else if contains (str ''Scholarship'') title then str ''Scholarship Program''
      else if contains (str ''Fellowship'') title then str ''Fellowship Program''
      else (if length (split_on 47 url) > 2 then split_on 47 url ! 2
            else organization_not_found))"

text \<open>
  The new organization of a record whose organization is "Organization Not Found",
  from its title and its application URL. A URL that is not a string has no
  \<open>split\<close>; a title that is not a string cannot be searched. When the URL
  gives no name, the title patterns are tried; line 803 then tests the organization
  again for "Organization Not Found" (which it still is when no pattern gave a name,
  or when the name found is that very text) and goes on to the generic names.
\<close>

definition title_or_generic :: "pyval \<Rightarrow> pystr \<Rightarrow> py_error + pystr" where
  "title_or_generic title u =
     (case title of
        PyStr t \<Rightarrow>
          (case (if t \<noteq> [] then batch_title_org batch_title_patterns t else None) of
             Some org \<Rightarrow>
               if org = organization_not_found then Inr (generic_organization t u) else Inr org
           | None \<Rightarrow> Inr (generic_organization t u))
      | _ \<Rightarrow> Inl TypeError)"

definition reconciled_organization :: "pyval \<Rightarrow> pyval \<Rightarrow> py_error + pystr" where
  "reconciled_organization title url =
     (case url of
        PyStr u \<Rightarrow>
          (case extract_org_from_url u of
             Some org_from_url \<Rightarrow>
               if org_from_url \<noteq> [] then Inr org_from_url else title_or_generic title u
           | None \<Rightarrow> title_or_generic title u)
      | _ \<Rightarrow> Inl AttributeError)"

text \<open>One step of the loop \<open>for grant in grants\<close> of the pass.\<close>

definition reconcile :: "grant \<Rightarrow> py_error + grant" where
  "reconcile g =
     (case g ''organization'' of
        None \<Rightarrow> Inl KeyError
      | Some organization \<Rightarrow>
          if organization = PyStr organization_not_found then
            (case (g ''applicationUrl'', g ''title'') of
               (Some url, Some title) \<Rightarrow>
                 (case reconciled_organization title url of
                    Inl e \<Rightarrow> Inl e
                  | Inr org \<Rightarrow> Inr (g(''organization'' \<mapsto> PyStr org)))
             | _ \<Rightarrow> Inl KeyError)
          else Inr g)"

section \<open>The run of the scraper\<close>

subsection \<open>Dates, the cutoff and \<open>strftime\<close>\<close>

definition deadline_cutoff :: datetime where
  "deadline_cutoff = \<lparr>dt_year = 2025, dt_month = 4, dt_day = 2\<rparr>"

text \<open>\<open>a.date() < b.date()\<close>\<close>

definition date_less :: "datetime \<Rightarrow> datetime \<Rightarrow> bool" where
  "date_less a b =
     (dt_year a < dt_year b \<or>
      (dt_year a = dt_year b \<and>
       (dt_month a < dt_month b \<or> (dt_month a = dt_month b \<and> dt_day a < dt_day b))))"

definition month_abbr :: "string list" where
  "month_abbr = [''Jan'', ''Feb'', ''Mar'', ''Apr'', ''May'', ''Jun'',
                 ''Jul'', ''Aug'', ''Sep'', ''Oct'', ''Nov'', ''Dec'']"

definition two_digits :: "int \<Rightarrow> pystr" where
  "two_digits n = [48 + (n div 10) mod 10, 48 + n mod 10]"

text \<open>\<open>dt.strftime("%d-%b-%y")\<close> in the C locale.\<close>

definition strftime_dby :: "datetime \<Rightarrow> pystr" where
  "strftime_dby dt =
     two_digits (dt_day dt) @ [45] @ str (month_abbr ! nat (dt_month dt - 1)) @ [45] @
     two_digits (dt_year dt mod 100)"

definition deadline_format :: string where
  "deadline_format = ''%d-%b-%y''"

subsection \<open>The state of a run and what comes from outside\<close>

text \<open>
  The module-level variables the loop works on. \<open>helpers_defined\<close> tells whether
  the \<open>def\<close> statements inside the article loop (for \<open>clean_text\<close> and
  \<open>clean_amount_value\<close>) have been executed, which binds these names for the code
  after the loop.
\<close>

record run_state =
  grants :: "grant list"
  existing_grant_urls :: "pyval set"
  processed_urls :: "pyval set"
  page_has_valid_grants :: bool
  helpers_defined :: bool

text \<open>
  What the HTML and the network deliver for one listing: whether the title tag was
  found, the \<open>href\<close> of its link if it has one, the text of the organization tag
  if there is one, the outcome of fetching the detail page, and the deadline
  paragraph of the listing (\<open>None\<close>: no tag with "Deadline"; \<open>Some None\<close>: the tag
  has no enclosing paragraph; else the text of the paragraph). A detail page has
  its content block or not; the content block has its text and, if the "more
  information" paragraph and its link are found, the joined URL of that link.
\<close>

record content =
  page_text :: pystr
  external_link :: "pystr option"

datatype detail = DetailError | DetailPage "content option"

record article =
  has_title :: bool
  link_href :: "pystr option"
  org_tag :: "pystr option"
  detail_of :: detail
  listing_deadline :: "pystr option option"

text \<open>
  An article is skipped by \<open>continue\<close>, or its processing raises an exception that
  the handlers of the loop catch, or it runs to the end; each time the state is
  what it was at that point.
\<close>

datatype 'a step = Raised py_error run_state | Skipped run_state | Next 'a run_state

fun state_of :: "'a step \<Rightarrow> run_state" where
  "state_of (Raised e s) = s"
| "state_of (Skipped s) = s"
| "state_of (Next x s) = s"

fun is_next :: "'a step \<Rightarrow> bool" where
  "is_next (Next x s) = True"
| "is_next _ = False"

definition new_grant :: grant where
  "new_grant =
     [''deadline'' \<mapsto> PyNone, ''title'' \<mapsto> PyNone, ''applicationUrl'' \<mapsto> PyNone,
      ''organization'' \<mapsto> PyNone, ''description'' \<mapsto> PyNone, ''amount'' \<mapsto> PyNone,
      ''status'' \<mapsto> PyStr (str ''active''), ''eligibility'' \<mapsto> PyStr sentinel,
      ''category'' \<mapsto> PyStr (str ''General'')]"

text \<open>\<open>grant.get(k)\<close>: the value, or \<open>None\<close> for a missing key.\<close>

definition item :: "grant \<Rightarrow> string \<Rightarrow> pyval" where
  "item g k = (case g k of Some v \<Rightarrow> v | None \<Rightarrow> PyNone)"

subsection \<open>The deadline of a candidate\<close>

text \<open>
  \<open>Deadline\s*:\s*([\w\s,-]+?\d{4}|\d{1,2}[-/][A-Za-z]{3,}[-/]\d{2,4})\<close>, searched with
  \<open>IGNORECASE\<close> in the text of the detail page.
\<close>

definition deadline_pattern :: regex where
  "deadline_pattern =
     seqs [lit ''Deadline'', star space, chr CHR '':'', star space,
           Grp 1 (Alt (Seq (lazy_plus (Cls (word_ranges @ space_ranges @ [(44, 45)])))
                         (rep 4 4 digit))
                      (seqs [rep 1 2 digit, Cls [(45, 45), (47, 47)],
                             Rep True 3 None (Cls [(65, 90), (97, 122)]),
                             Cls [(45, 45), (47, 47)], rep 2 4 digit]))]"

text \<open>
  One deadline text against the cutoff: \<open>Valid\<close> with the formatted date when the
  parsed date is after the cutoff, \<open>Stale\<close> when it is parsed and not after the
  cutoff, \<open>Unparsed\<close> when \<open>parse_date\<close> gives \<open>None\<close>.
\<close>

datatype deadline_check = Valid pystr | Stale | Unparsed

definition check_deadline :: "date_env \<Rightarrow> pystr \<Rightarrow> deadline_check" where
  "check_deadline env deadline_str =
     (case parse_date env deadline_str of
        None \<Rightarrow> Unparsed
      | Some deadline_dt \<Rightarrow>
          if date_less deadline_cutoff deadline_dt then Valid (strftime_dby deadline_dt)
          else Stale)"

text \<open>The deadline text of the detail page: the stripped first group of the match.\<close>

definition detail_deadline_str :: "pystr \<Rightarrow> pystr option" where
  "detail_deadline_str full_text =
     (case re_search IGNORECASE deadline_pattern full_text of
        None \<Rightarrow> None
      | Some deadline_match \<Rightarrow>
          (case m_groups deadline_match of Some g # _ \<Rightarrow> Some (strip g) | _ \<Rightarrow> None))"

text \<open>
  \<open>re.sub(r'Deadline\s*:\s*' + re.escape(deadline_str_extracted), '', cleaned_description,
  flags=re.IGNORECASE).strip()\<close>
\<close>

definition lit_str :: "pystr \<Rightarrow> regex" where
  "lit_str s = seqs (map (\<lambda>c. Cls [(c, c)]) s)"

definition remove_deadline :: "pystr \<Rightarrow> pystr \<Rightarrow> pystr" where
  "remove_deadline deadline_str_extracted cleaned_description =
     strip (re_sub IGNORECASE
              (seqs [lit ''Deadline'', star space, chr CHR '':'', star space,
                     lit_str deadline_str_extracted])
              (\<lambda>m. []) cleaned_description)"

text \<open>
  Lines 640 to 647: the stored deadline is parsed again with \<open>"%d-%b-%y"\<close>; the
  candidate goes on only if this gives a date after the cutoff.
\<close>

definition deadline_passes :: "pystr \<Rightarrow> bool" where
  "deadline_passes deadline =
     (case strptime deadline deadline_format of
        None \<Rightarrow> False
      | Some dt \<Rightarrow> date_less deadline_cutoff dt)"

text \<open>A record whose stored deadline passes this check.\<close>

definition deadline_ok :: "grant \<Rightarrow> bool" where
  "deadline_ok g = (case item g ''deadline'' of PyStr d \<Rightarrow> deadline_passes d | _ \<Rightarrow> False)"

subsection \<open>The deduplication of lines 661 to 670\<close>

text \<open>
  A candidate whose application URL is known is not appended; a new one is appended
  and its URL is added to the known URLs at once. In both cases the URL is added to
  the URLs processed in this run.
\<close>

definition dedup_append :: "grant \<Rightarrow> run_state \<Rightarrow> run_state" where
  "dedup_append g st =
     (if item g ''applicationUrl'' \<in> existing_grant_urls st
      then st\<lparr>processed_urls := insert (item g ''applicationUrl'') (processed_urls st)\<rparr>
      else st\<lparr>grants := grants st @ [g],
              existing_grant_urls := insert (item g ''applicationUrl'') (existing_grant_urls st),
              processed_urls := insert (item g ''applicationUrl'') (processed_urls st)\<rparr>)"

text \<open>
  The known URLs at startup (lines 253 to 264): the \<open>applicationUrl\<close> of every
  loaded record that has this key.
\<close>

definition startup :: "grant list \<Rightarrow> run_state" where
  "startup existing_grants =
     \<lparr>grants = existing_grants,
      existing_grant_urls = set (List.map_filter (\<lambda>g. g ''applicationUrl'') existing_grants),
      processed_urls = {},
      page_has_valid_grants = False,
      helpers_defined = False\<rparr>"

subsection \<open>One article (lines 307 to 678)\<close>

text \<open>
  Lines 492 to 494: \<open>clean_text\<close> on a field that is present and truthy; a truthy
  value that is not a string has no \<open>replace\<close>.
\<close>

definition clean_field :: "pyval \<Rightarrow> py_error + pyval" where
  "clean_field v =
     (if \<not> truthy_val v then Inr v
      else case v of PyStr s \<Rightarrow> Inr (PyStr (clean_text s)) | _ \<Rightarrow> Inl AttributeError)"

fun clean_fields :: "string list \<Rightarrow> grant \<Rightarrow> py_error + grant" where
  "clean_fields [] g = Inr g"
| "clean_fields (field # others) g =
     (case g field of
        None \<Rightarrow> clean_fields others g
      | Some v \<Rightarrow>
          (case clean_field v of
             Inl e \<Rightarrow> Inl e
           | Inr v' \<Rightarrow> clean_fields others (g(field \<mapsto> v'))))"

definition mark_processed :: "grant \<Rightarrow> run_state \<Rightarrow> run_state" where
  "mark_processed g st =
     st\<lparr>processed_urls := insert (item g ''applicationUrl'') (processed_urls st)\<rparr>"

text \<open>
  Lines 502 to 609, the detail page: with a content block, the eligibility summary
  replaces the default when it is not the sentinel, and the deadline is looked for
  in the text. A deadline after the cutoff is stored and marks the page as having
  a valid grant; a parsed deadline that is not after the cutoff ends the article.
  The result carries the record and \<open>cleaned_description\<close>.
\<close>

definition detail_stage ::
  "date_env \<Rightarrow> content option \<Rightarrow> grant \<Rightarrow> run_state \<Rightarrow> (grant \<times> pystr) step" where
  "detail_stage env content_div g st =
     (case content_div of
        None \<Rightarrow> Next (g, str ''Description not found.'') st
      | Some c \<Rightarrow>
          (let g1 = (if eligibility_of (page_text c) \<noteq> sentinel
                     then g(''eligibility'' \<mapsto> PyStr (eligibility_of (page_text c))) else g)
           in case detail_deadline_str (page_text c) of
                None \<Rightarrow> Next (g1, page_text c) st
              | Some deadline_str_extracted \<Rightarrow>
                  (case check_deadline env deadline_str_extracted of
                     Valid d \<Rightarrow>
                       Next (g1(''deadline'' \<mapsto> PyStr d),
                             remove_deadline deadline_str_extracted (page_text c))
                            (st\<lparr>page_has_valid_grants := True\<rparr>)
                   | Stale \<Rightarrow> Skipped (mark_processed g1 st)
                   | Unparsed \<Rightarrow> Next (g1, page_text c) st)))"

text \<open>
  Lines 611 to 627, the fallback: without a deadline so far, the text after the last
  colon of the deadline paragraph of the listing is tried in the same way.
\<close>

definition listing_stage ::
  "date_env \<Rightarrow> article \<Rightarrow> grant \<Rightarrow> pystr \<Rightarrow> run_state \<Rightarrow> (grant \<times> pystr) step" where
  "listing_stage env a g cleaned_description st =
     (if item g ''deadline'' = PyNone then
        (case listing_deadline a of
           None \<Rightarrow> Next (g, cleaned_description) st
         | Some None \<Rightarrow> Raised AttributeError st
         | Some (Some paragraph) \<Rightarrow>
             (let deadline_str_list = strip (last (split_on 58 paragraph))
              in case check_deadline env deadline_str_list of
                   Valid d \<Rightarrow>
                     Next (g(''deadline'' \<mapsto> PyStr d),
                           remove_deadline deadline_str_list cleaned_description)
                          (st\<lparr>page_has_valid_grants := True\<rparr>)
                 | Stale \<Rightarrow> Skipped (mark_processed g st)
                 | Unparsed \<Rightarrow> Next (g, cleaned_description) st))
      else Next (g, cleaned_description) st)"

text \<open>
  Lines 629 to 670: the final deadline check, the required fields, the second check
  of the deadline against the cutoff, the description, the amount, the external
  URL, and the deduplication.
\<close>

definition final_description :: "pystr \<Rightarrow> pystr" where
  "final_description cleaned_description =
     strip (take 500 cleaned_description) @
     (if length cleaned_description > 500 then str ''...'' else [])"

definition final_stage ::
  "content option \<Rightarrow> grant \<Rightarrow> pystr \<Rightarrow> run_state \<Rightarrow> grant step" where
  "final_stage content_div g cleaned_description st =
     (if item g ''deadline'' = PyNone then Skipped (mark_processed g st)
      else if \<not> (truthy_val (item g ''title'') \<and> truthy_val (item g ''applicationUrl'') \<and>
                  truthy_val (item g ''deadline'')) then Skipped st
      else (case item g ''deadline'' of
              PyStr deadline \<Rightarrow>
                if \<not> deadline_passes deadline then Skipped st
                else (case amount_with_currency
                             (case content_div of None \<Rightarrow> [] | Some c \<Rightarrow> page_text c) of
                        Inl e \<Rightarrow> Raised e st
                      | Inr amount \<Rightarrow>
                          (let g' = g(''description'' \<mapsto> PyStr (final_description cleaned_description),
                                      ''amount'' \<mapsto> amount,
                                      ''applicationUrl'' \<mapsto>
                                        (case content_div of
                                           None \<Rightarrow> item g ''applicationUrl''
                                         | Some c \<Rightarrow>
                                             (case external_link c of
                                                None \<Rightarrow> item g ''applicationUrl''
                                              | Some u \<Rightarrow> PyStr u)))
                           in Next g' (dedup_append g' st)))
            | _ \<Rightarrow> Raised TypeError st))"

definition after_fetch ::
  "date_env \<Rightarrow> article \<Rightarrow> content option \<Rightarrow> grant \<Rightarrow> run_state \<Rightarrow> grant step" where
  "after_fetch env a content_div g st =
     (case detail_stage env content_div g st of
        Raised e s \<Rightarrow> Raised e s
      | Skipped s \<Rightarrow> Skipped s
      | Next (g2, cleaned_description) s2 \<Rightarrow>
          (case listing_stage env a g2 cleaned_description s2 of
             Raised e s \<Rightarrow> Raised e s
           | Skipped s \<Rightarrow> Skipped s
           | Next (g3, cleaned_description3) s3 \<Rightarrow>
               final_stage content_div g3 cleaned_description3 s3))"

text \<open>
  Lines 464 to 500, between the organization and the detail page: the call of
  \<open>extract_amount_from_text\<close>, a name that is defined nowhere, for a record
  without amount; the cleaning of the text fields; the slice \<open>grant['title'][:50]\<close>;
  and the request for \<open>grant['applicationUrl']\<close>, which fails for a value that is
  not a URL.
\<close>

definition article_rest :: "date_env \<Rightarrow> article \<Rightarrow> grant \<Rightarrow> run_state \<Rightarrow> grant step" where
  "article_rest env a g st =
     (if \<not> truthy_val (item g ''amount'') \<or> item g ''amount'' = PyStr (str ''null'')
      then Raised NameError st
      else (case clean_fields [''title'', ''description'', ''eligibility''] g of
              Inl e \<Rightarrow> Raised e st
            | Inr g1 \<Rightarrow>
                (case item g1 ''title'' of
                   PyStr t \<Rightarrow>
                     (case item g1 ''applicationUrl'' of
                        PyStr u \<Rightarrow>
                          (case detail_of a of
                             DetailError \<Rightarrow> Raised RequestException st
                           | DetailPage content_div \<Rightarrow> after_fetch env a content_div g1 st)
                      | _ \<Rightarrow> Raised RequestException st)
                 | _ \<Rightarrow> Raised TypeError st)))"

text \<open>
  The body of the loop over the articles. The record starts with its defaults; the
  title and the URL of the listing are checked but not stored in it; the helper
  functions are defined; then the organization is resolved from the record.
\<close>

definition article_body :: "date_env \<Rightarrow> article \<Rightarrow> run_state \<Rightarrow> grant step" where
  "article_body env a st =
     (if \<not> has_title a \<or> link_href a = None then Skipped st
      else (let st1 = st\<lparr>helpers_defined := True\<rparr>
            in case candidate_organization (org_tag a) (item new_grant ''title'')
                      (item new_grant ''applicationUrl'') (item new_grant ''description'') of
                 Inl e \<Rightarrow> Raised e st1
               | Inr organization \<Rightarrow>
                   article_rest env a (new_grant(''organization'' \<mapsto> PyStr organization)) st1))"

text \<open>Both handlers of the article loop log the exception and go on with the next article.\<close>

definition process_article :: "date_env \<Rightarrow> article \<Rightarrow> run_state \<Rightarrow> run_state" where
  "process_article env a st = state_of (article_body env a st)"

fun process_articles :: "date_env \<Rightarrow> article list \<Rightarrow> run_state \<Rightarrow> run_state" where
  "process_articles env [] st = st"
| "process_articles env (a # as) st = process_articles env as (process_article env a st)"

subsection \<open>The loop over the pages, and the file that is written\<close>

text \<open>
  What fetching a listing page gives: an HTTP error with its status, another
  request error, another exception, or the articles of the page.
\<close>

datatype page_result =
  PageHttpError nat | PageRequestError | PageOtherError | PageArticles "article list"

fun scrape_pages :: "date_env \<Rightarrow> page_result list \<Rightarrow> run_state \<Rightarrow> run_state" where
  "scrape_pages env [] st = st"
| "scrape_pages env (PageHttpError status # ps) st =
     (if status = 429 then st else scrape_pages env ps st)"
| "scrape_pages env (PageRequestError # ps) st = scrape_pages env ps st"
| "scrape_pages env (PageOtherError # ps) st = scrape_pages env ps st"
| "scrape_pages env (PageArticles articles # ps) st =
     (if articles = [] then st
      else (let st' = process_articles env articles (st\<lparr>page_has_valid_grants := False\<rparr>)
            in if \<not> page_has_valid_grants st' then st' else scrape_pages env ps st'))"

text \<open>\<open>for page in range(1, 11)\<close>: at most ten pages.\<close>

definition scrape :: "date_env \<Rightarrow> page_result list \<Rightarrow> run_state \<Rightarrow> run_state" where
  "scrape env pages st = scrape_pages env (take 10 pages) st"

text \<open>
  Lines 719 to 737, the clean-up of a record before the file is written: missing
  fields are filled, the text fields are cleaned (with \<open>clean_text\<close>, which is a
  name only if the helper functions were defined in this run), the amount is
  formatted.
\<close>

definition fill_field :: "string \<Rightarrow> grant \<Rightarrow> grant" where
  "fill_field field g =
     (if g field = None \<or> g field = Some PyNone then
        (if field = ''amount'' then g(field \<mapsto> PyNone)
         else if field = ''organization'' \<and> g field = None
         then g(field \<mapsto> PyStr unknown_organization)
         else g(field \<mapsto> PyStr []))
      else g)"

definition record_fields :: "string list" where
  "record_fields = [''deadline'', ''title'', ''applicationUrl'', ''organization'',
                    ''description'', ''amount'', ''status'', ''eligibility'', ''category'']"

fun save_text_fields :: "bool \<Rightarrow> string list \<Rightarrow> grant \<Rightarrow> py_error + grant" where
  "save_text_fields defined [] g = Inr g"
| "save_text_fields defined (field # others) g =
     (if truthy_val (item g field) then
        (if \<not> defined then Inl NameError
         else (case clean_field (item g field) of
                 Inl e \<Rightarrow> Inl e
               | Inr v \<Rightarrow> save_text_fields defined others (g(field \<mapsto> v))))
      else save_text_fields defined others g)"

definition save_cleanup :: "bool \<Rightarrow> grant \<Rightarrow> py_error + grant" where
  "save_cleanup defined g =
     (case save_text_fields defined [''title'', ''description'', ''eligibility'']
             (fold fill_field record_fields g) of
        Inl e \<Rightarrow> Inl e
      | Inr g1 \<Rightarrow>
          if truthy_val (item g1 ''amount'')
          then (if \<not> defined then Inl NameError
                else Inr (g1(''amount'' \<mapsto> clean_amount_value (item g1 ''amount''))))
          else Inr g1)"

fun save_all :: "bool \<Rightarrow> grant list \<Rightarrow> py_error + grant list" where
  "save_all defined [] = Inr []"
| "save_all defined (g # gs) =
     (case save_cleanup defined g of
        Inl e \<Rightarrow> Inl e
      | Inr g' \<Rightarrow> (case save_all defined gs of Inl e \<Rightarrow> Inl e | Inr gs' \<Rightarrow> Inr (g' # gs')))"

text \<open>
  A run: the loaded records, the pages, then the records written to the file, or
  \<open>None\<close> when the clean-up raises and the file is left as it was.
\<close>

definition scraper_run :: "date_env \<Rightarrow> grant list \<Rightarrow> page_result list \<Rightarrow> grant list option" where
  "scraper_run env existing_grants pages =
     (let st = scrape env pages (startup existing_grants)
      in case save_all (helpers_defined st) (grants st) of
           Inl e \<Rightarrow> None
         | Inr saved \<Rightarrow> Some saved)"

subsection \<open>Example inputs\<close>

text \<open>The URL of a record; a listing as the site delivers it; records and detail pages
  for the examples.\<close>

definition url_of :: "grant \<Rightarrow> pyval" where
  "url_of g = item g ''applicationUrl''"

definition listing :: article where
  "listing =
     \<lparr>has_title = True, link_href = Some (str ''https://www2.fundsforngos.org/x/''),
      org_tag = None,
      detail_of = DetailPage (Some \<lparr>page_text = str ''Deadline: 03-Apr-26'', external_link = None\<rparr>),
      listing_deadline = None\<rparr>"

definition candidate_a :: grant where
  "candidate_a = new_grant(''title'' \<mapsto> PyStr (str ''Grant A''),
                           ''applicationUrl'' \<mapsto> PyStr (str ''https://example.org/apply''))"

definition candidate_b :: grant where
  "candidate_b = new_grant(''title'' \<mapsto> PyStr (str ''Grant B''),
                           ''applicationUrl'' \<mapsto> PyStr (str ''https://example.org/apply''))"

definition no_fallback :: date_env where
  "no_fallback = \<lparr>locale_strptime = (\<lambda>lang s. None), dateutil_parse = (\<lambda>s. None)\<rparr>"

definition page_open :: content where
  "page_open = \<lparr>page_text = str ''Small grants for NGOs. Deadline: 03-Apr-25. Apply now.'',
                 external_link = Some (str ''https://example.org/apply'')\<rparr>"

definition page_on_cutoff :: content where
  "page_on_cutoff = \<lparr>page_text = str ''Small grants for NGOs. Deadline: 02-Apr-25. Apply now.'',
                      external_link = None\<rparr>"


text \<open>Two records as the file of an earlier run may hold them.\<close>

definition stored_zero :: grant where
  "stored_zero = new_grant(''title'' \<mapsto> PyStr (str ''Seed grants''),
                           ''applicationUrl'' \<mapsto> PyStr (str ''https://example.org/seed''),
                           ''deadline'' \<mapsto> PyStr (str ''01-Jan-26''),
                           ''amount'' \<mapsto> PyInt 0)"

definition stored_varies :: grant where
  "stored_varies = new_grant(''title'' \<mapsto> PyStr (str ''Travel grants''),
                             ''applicationUrl'' \<mapsto> PyStr (str ''https://example.org/travel''),
                             ''deadline'' \<mapsto> PyStr (str ''01-Feb-26''),
                             ''amount'' \<mapsto> PyStr (str ''Varies''))"

definition stored_number :: grant where
  "stored_number = new_grant(''title'' \<mapsto> PyStr (str ''Field grants''),
                             ''applicationUrl'' \<mapsto> PyStr (str ''https://example.org/field''),
                             ''deadline'' \<mapsto> PyStr (str ''01-Mar-26''),
                             ''amount'' \<mapsto> PyInt 5000)"
section \<open>Properties of \<open>extract_amount\<close>\<close>

subsection \<open>The groups of a match, and the errors each stage can raise\<close>


















text \<open>
  C1. For the text "Grants of $10,000 - $50,000 are available" the extractor is
  expected to return "$50000". In the code the mangled range does not match this
  text, the standard range pattern matches "$10,000 - $50,000" with its six
  groups, and the unpacking of the six groups into seven names raises
  \<open>ValueError\<close>: no amount is returned.
\<close>

theorem extract_amount_range_example_raises:
  "extract_amount (str ''Grants of $10,000 - $50,000 are available'') = Inl ValueError"
  by code_simp





subsection \<open>The year guard\<close>

lemma candidate_of_Some:
  "candidate_of (num_str, mult, cur, ms) = Inr (Some (v, c, ms')) \<Longrightarrow>
     \<exists>num. num_str = Some num \<and> c = cur \<and> ms' = ms \<and>
           clean_and_convert (Some num) mult = Inr (Some v) \<and> \<not> is_year v mult num"
  by (cases num_str)
     (auto simp: candidate_of_def clean_and_convert_def split: sum.splits option.splits if_splits)

lemma collect_candidates_mem:
  "collect_candidates hs = Inr pm \<Longrightarrow> (v, c, ms) \<in> set pm \<Longrightarrow>
     \<exists>num mult. (Some num, mult, c, ms) \<in> set hs \<and>
                clean_and_convert (Some num) mult = Inr (Some v) \<and> \<not> is_year v mult num"
proof (induction hs arbitrary: pm)
  case Nil
  then show ?case by simp
next
  case (Cons h hs)
  obtain num_str mult cur ms' where h: "h = (num_str, mult, cur, ms')" by (cases h) auto
  from Cons.prems(1) obtain co cs where
    co: "candidate_of h = Inr co" and cs: "collect_candidates hs = Inr cs" and
    pm: "pm = (case co of None \<Rightarrow> cs | Some x \<Rightarrow> x # cs)"
    by (auto split: sum.splits)
  show ?case
  proof (cases "(v, c, ms) \<in> set cs")
    case True
    from Cons.IH [OF cs True] show ?thesis by auto
  next
    case False
    with Cons.prems(2) pm have "co = Some (v, c, ms)" by (cases co) auto
    with co h candidate_of_Some [of num_str mult cur ms' v c ms] show ?thesis by auto
  qed
qed

text \<open>
  C7. Every candidate of the single-amount pool comes from a hit that is not a year
  false-positive: its value is outside 1990 to 2050, or it has a multiplier, or its
  number has a decimal point. A hit with a value from 1990 to 2050, no multiplier
  and no decimal point adds nothing to the pool; the amount returned by the single
  stage is the value of a candidate of the pool. For "Deadline 2024" the function
  returns \<open>(None, None)\<close>.
\<close>

theorem year_guard:
  "(potential_matches txt = Inr pm \<longrightarrow>
      (\<forall>(v, c, ms) \<in> set pm.
         \<exists>num mult. (Some num, mult, c, ms) \<in> set (single_hits txt) \<and>
           clean_and_convert (Some num) mult = Inr (Some v) \<and>
           \<not> (1990 \<le> v \<and> v \<le> 2050 \<and> mult = None \<and> 46 \<notin> set num))) \<and>
   (clean_and_convert (Some num) None = Inr (Some val) \<and> 1990 \<le> val \<and> val \<le> 2050 \<and>
      46 \<notin> set num \<longrightarrow> candidate_of (Some num, None, cur, ms) = Inr None) \<and>
   (potential_matches txt = Inr pm \<and> single_stage txt = Inr (PyInt v, c) \<longrightarrow>
      (\<exists>co ms. (v, co, ms) \<in> set pm)) \<and>
   extract_amount (str ''Deadline 2024'') = Inr (PyNone, PyNone)"
proof -
  have 1: "\<forall>(v, c, ms) \<in> set pm.
         \<exists>num mult. (Some num, mult, c, ms) \<in> set (single_hits txt) \<and>
           clean_and_convert (Some num) mult = Inr (Some v) \<and>
           \<not> (1990 \<le> v \<and> v \<le> 2050 \<and> mult = None \<and> 46 \<notin> set num)"
    if "potential_matches txt = Inr pm"
    using that collect_candidates_mem [of "single_hits txt" pm]
    unfolding potential_matches_def is_year_def by fast
  have 2: "candidate_of (Some num, None, cur, ms) = Inr None"
    if "clean_and_convert (Some num) None = Inr (Some val)" "1990 \<le> val" "val \<le> 2050"
      "46 \<notin> set num"
    using that by (simp add: candidate_of_def is_year_def)
  have 3: "\<exists>co ms. (v, co, ms) \<in> set pm"
    if "potential_matches txt = Inr pm" "single_stage txt = Inr (PyInt v, c)"
  proof -
    from that obtain co ms rest where "sort_key (\<lambda>x. - fst x) pm = (v, co, ms) # rest"
      by (auto simp: single_stage_def split: list.splits)
    then have "(v, co, ms) \<in> set (sort_key (\<lambda>x. - fst x) pm)" by simp
    then show ?thesis by auto
  qed
  have 4: "extract_amount (str ''Deadline 2024'') = Inr (PyNone, PyNone)"
    by code_simp
  from 1 2 3 4 show ?thesis by blast
qed

text \<open>
  In "$2,024 or $3,500" the first figure is dropped as a year and the second is the
  only candidate.
\<close>

theorem year_guard_witness:
  "potential_matches (str ''$2,024 or $3,500'') = Inr [(3500, Some (str ''$''), str ''$3,500'')] \<and>
   single_stage (str ''$2,024 or $3,500'') = Inr (PyInt 3500, PyStr (str ''$'')) \<and>
   clean_and_convert (Some (str ''2,024'')) None = Inr (Some 2024) \<and>
   candidate_of (Some (str ''2,024''), None, Some (str ''$''), str ''$2,024'') = Inr None \<and>
   (\<exists>num mult. (Some num, mult, Some (str ''$''), str ''$3,500'') \<in> set (single_hits (str ''$2,024 or $3,500'')) \<and>
      clean_and_convert (Some num) mult = Inr (Some 3500))"
proof -
  have h1: "potential_matches (str ''$2,024 or $3,500'') = Inr [(3500, Some (str ''$''), str ''$3,500'')]"
    by code_simp
  have h2: "single_stage (str ''$2,024 or $3,500'') = Inr (PyInt 3500, PyStr (str ''$''))"
    by code_simp
  have h3: "clean_and_convert (Some (str ''2,024'')) None = Inr (Some 2024)"
    by code_simp
  have h4: "(46::int) \<notin> set (str ''2,024'')"
    by code_simp
  note yg = year_guard [of "str ''$2,024 or $3,500''" "[(3500, Some (str ''$''), str ''$3,500'')]"
      "str ''2,024''" 2024 "Some (str ''$'')" "str ''$2,024''" 3500 "PyStr (str ''$'')"]
  from yg h3 h4 have c4: "candidate_of (Some (str ''2,024''), None, Some (str ''$''), str ''$2,024'') = Inr None"
    by simp
  from yg h1 have "\<exists>num mult. (Some num, mult, Some (str ''$''), str ''$3,500'') \<in> set (single_hits (str ''$2,024 or $3,500'')) \<and>
      clean_and_convert (Some num) mult = Inr (Some 3500)"
    by fastforce
  with h1 h2 h3 c4 show ?thesis by blast
qed

section \<open>Properties of \<open>parse_date\<close>\<close>


section \<open>Properties of the eligibility summary\<close>

lemma rfind_found:
  assumes "c \<in> set (take e s)"
  shows "0 \<le> rfind c s e \<and> nat (rfind c s e) < min e (length s) \<and> s ! nat (rfind c s e) = c \<and>
         (\<forall>j. nat (rfind c s e) < j \<and> j < min e (length s) \<longrightarrow> s ! j \<noteq> c)"
proof -
  define t where "t = take e s"
  define k where "k = length (takeWhile (\<lambda>x. x \<noteq> c) (rev t))"
  from assms have cin: "c \<in> set (rev t)" by (simp add: t_def)
  have klt: "k < length t"
  proof -
    have "k \<le> length (rev t)" unfolding k_def by (rule length_takeWhile_le)
    moreover have "k \<noteq> length (rev t)"
    proof
      assume "k = length (rev t)"
      moreover have "takeWhile (\<lambda>x. x \<noteq> c) (rev t) = take k (rev t)"
        unfolding k_def by (rule takeWhile_eq_take)
      ultimately have "takeWhile (\<lambda>x. x \<noteq> c) (rev t) = rev t" by simp
      with cin show False by auto
    qed
    ultimately show ?thesis by simp
  qed
  have hit: "rev t ! k = c"
    using nth_length_takeWhile [of "\<lambda>x. x \<noteq> c" "rev t"] klt unfolding k_def by simp
  have before: "rev t ! j \<noteq> c" if "j < k" for j
  proof -
    from that have j: "j < length (takeWhile (\<lambda>x. x \<noteq> c) (rev t))" by (simp add: k_def)
    then have "takeWhile (\<lambda>x. x \<noteq> c) (rev t) ! j \<in> set (takeWhile (\<lambda>x. x \<noteq> c) (rev t))"
      by (rule nth_mem)
    from set_takeWhileD [OF this] takeWhile_nth [OF j] show ?thesis by simp
  qed
  have r: "rfind c s e = int (length t) - 1 - int k"
    using assms by (simp add: rfind_def t_def k_def)
  have lt: "length t = min e (length s)" by (simp add: t_def min.commute)
  have i: "nat (rfind c s e) = length t - 1 - k" using r klt by simp
  have tn: "\<And>j. j < length t \<Longrightarrow> t ! j = s ! j" by (simp add: t_def)
  have a: "0 \<le> rfind c s e" using r klt by simp
  have "nat (rfind c s e) < length t" using i klt by simp
  then have b: "nat (rfind c s e) < min e (length s)" by (simp only: lt)
  have c': "s ! nat (rfind c s e) = c"
  proof -
    have "rev t ! k = t ! (length t - Suc k)" using klt by (simp add: rev_nth)
    with hit i tn [of "length t - 1 - k"] klt show ?thesis by simp
  qed
  have d: "s ! j \<noteq> c" if "nat (rfind c s e) < j" "j < min e (length s)" for j
  proof -
    from that have "nat (rfind c s e) < j" "j < length t" by (simp_all only: lt)
    then have j: "length t - 1 - k < j" "j < length t" by (simp_all only: i)
    define j' where "j' = length t - Suc j"
    from j klt have "j' < k" by (simp add: j'_def)
    then have "rev t ! j' \<noteq> c" by (rule before)
    moreover have "rev t ! j' = t ! j" using j by (simp add: rev_nth j'_def)
    ultimately show ?thesis using tn j by simp
  qed
  from a b c' d show ?thesis by blast
qed

lemma rfind_none: "c \<notin> set (take e s) \<Longrightarrow> rfind c s e = - 1"
  by (simp add: rfind_def)


text \<open>
  C9. Without a recognised heading the summary is the sentinel "See official
  guidelines". With a heading, the summary is computed from the bounded segment:
  a segment of 5 characters or fewer gives the sentinel; a segment of 6 to 300
  characters is the summary; a segment of more than 300 characters is cut after its
  last period among the first 300 characters when that period lies beyond index
  150, and is otherwise cut at 300 characters, stripped, with "..." appended.
\<close>

theorem eligibility_summary_cases:
  "(find_keyword page eligibility_keywords = None \<longrightarrow> eligibility_of page = sentinel) \<and>
   (find_keyword page eligibility_keywords = Some (i, kw) \<longrightarrow>
      eligibility_of page = summarize_segment (eligibility_segment page i kw)) \<and>
   (length seg \<le> 5 \<longrightarrow> summarize_segment seg = sentinel) \<and>
   (5 < length seg \<and> length seg \<le> 300 \<longrightarrow> summarize_segment seg = seg) \<and>
   (300 < length seg \<and> 150 < rfind 46 seg 300 \<longrightarrow>
      summarize_segment seg = take (nat (rfind 46 seg 300 + 1)) seg \<and>
      nat (rfind 46 seg 300) < 300 \<and> seg ! nat (rfind 46 seg 300) = 46 \<and>
      (\<forall>j. nat (rfind 46 seg 300) < j \<and> j < 300 \<longrightarrow> seg ! j \<noteq> 46)) \<and>
   (300 < length seg \<and> rfind 46 seg 300 \<le> 150 \<longrightarrow>
      summarize_segment seg = strip (take 300 seg) @ str ''...'')"
proof -
  have a: "eligibility_of page = sentinel" if "find_keyword page eligibility_keywords = None"
    using that by (simp add: eligibility_of_def)
  have b: "eligibility_of page = summarize_segment (eligibility_segment page i kw)"
    if "find_keyword page eligibility_keywords = Some (i, kw)"
    using that by (simp add: eligibility_of_def Let_def)
  have c: "summarize_segment seg = sentinel" if "length seg \<le> 5"
    using that by (simp add: summarize_segment_def max_len_def)
  have d: "summarize_segment seg = seg" if "5 < length seg" "length seg \<le> 300"
    using that by (simp add: summarize_segment_def max_len_def)
  have e: "summarize_segment seg = take (nat (rfind 46 seg 300 + 1)) seg \<and>
      nat (rfind 46 seg 300) < 300 \<and> seg ! nat (rfind 46 seg 300) = 46 \<and>
      (\<forall>j. nat (rfind 46 seg 300) < j \<and> j < 300 \<longrightarrow> seg ! j \<noteq> 46)"
    if "300 < length seg" "150 < rfind 46 seg 300"
  proof -
    from that(2) have "46 \<in> set (take 300 seg)"
      using rfind_none [of 46 300 seg] by fastforce
    from rfind_found [OF this] that(1)
    have "nat (rfind 46 seg 300) < 300" "seg ! nat (rfind 46 seg 300) = 46"
      "\<forall>j. nat (rfind 46 seg 300) < j \<and> j < 300 \<longrightarrow> seg ! j \<noteq> 46"
      by simp_all
    moreover from that have "summarize_segment seg = take (nat (rfind 46 seg 300 + 1)) seg"
      by (simp add: summarize_segment_def max_len_def Let_def)
    ultimately show ?thesis by blast
  qed
  have f: "summarize_segment seg = strip (take 300 seg) @ str ''...''"
    if "300 < length seg" "rfind 46 seg 300 \<le> 150"
    using that by (simp add: summarize_segment_def max_len_def Let_def)
  from a b c d e f show ?thesis by blast
qed

text \<open>
  A text without heading; a heading followed by "NGOs" only; a heading with a
  segment of medium length; and two long segments, one with a period at index 200,
  one with its only period at index 100.
\<close>

theorem eligibility_summary_cases_witness:
  "find_keyword (str ''This call has no such section. How to Apply: online.'')
     eligibility_keywords = None \<and>
   eligibility_of (str ''This call has no such section. How to Apply: online.'') = sentinel \<and>
   find_keyword (str ''Intro. Eligibility: NGOs How to Apply: online'') eligibility_keywords
     = Some (7, str ''Eligibility'') \<and>
   eligibility_segment (str ''Intro. Eligibility: NGOs How to Apply: online'') 7 (str ''Eligibility'')
     = str ''NGOs'' \<and>
   eligibility_of (str ''Intro. Eligibility: NGOs How to Apply: online'') = sentinel \<and>
   summarize_segment (str ''Registered NGOs in Kenya'') = str ''Registered NGOs in Kenya'' \<and>
   summarize_segment (replicate 200 97 @ [46] @ replicate 120 98) = replicate 200 97 @ [46] \<and>
   summarize_segment (replicate 100 97 @ [46] @ replicate 220 98)
     = replicate 100 97 @ [46] @ replicate 199 98 @ str ''...''"
proof -
  have k1: "find_keyword (str ''This call has no such section. How to Apply: online.'')
     eligibility_keywords = None"
    by code_simp
  have k2: "find_keyword (str ''Intro. Eligibility: NGOs How to Apply: online'') eligibility_keywords
     = Some (7, str ''Eligibility'')"
    by code_simp
  have s2: "eligibility_segment (str ''Intro. Eligibility: NGOs How to Apply: online'') 7
     (str ''Eligibility'') = str ''NGOs''"
    by code_simp
  have l2: "length (str ''NGOs'') \<le> 5"
    by code_simp
  have l3: "5 < length (str ''Registered NGOs in Kenya'') \<and> length (str ''Registered NGOs in Kenya'') \<le> 300"
    by code_simp
  have l4: "300 < length (replicate 200 97 @ [46::int] @ replicate 120 98)"
    by code_simp
  have r4: "rfind 46 (replicate 200 97 @ [46] @ replicate 120 98) 300 = 200"
    by code_simp
  have t4: "take (nat (200 + 1)) (replicate 200 97 @ [46::int] @ replicate 120 98) = replicate 200 97 @ [46]"
    by code_simp
  have l5: "300 < length (replicate 100 97 @ [46::int] @ replicate 220 98)"
    by code_simp
  have r5: "rfind 46 (replicate 100 97 @ [46] @ replicate 220 98) 300 = 100"
    by code_simp
  have t5: "strip (take 300 (replicate 100 97 @ [46] @ replicate 220 98))
     = replicate 100 97 @ [46] @ replicate 199 98"
    by code_simp
  note c1 = eligibility_summary_cases [where page = "str ''This call has no such section. How to Apply: online.''"]
  note c2 = eligibility_summary_cases [where page = "str ''Intro. Eligibility: NGOs How to Apply: online''" and i = "7"
       and kw = "str ''Eligibility''" and seg = "str ''NGOs''"]
  note c3 = eligibility_summary_cases [where seg = "str ''Registered NGOs in Kenya''"]
  note c4 = eligibility_summary_cases [where seg = "replicate 200 97 @ [46] @ replicate 120 98"]
  note c5 = eligibility_summary_cases [where seg = "replicate 100 97 @ [46] @ replicate 220 98"]
  from c1 k1 have e1: "eligibility_of (str ''This call has no such section. How to Apply: online.'') = sentinel"
    by blast
  from c2 k2 s2 l2 have e2: "eligibility_of (str ''Intro. Eligibility: NGOs How to Apply: online'') = sentinel"
    by simp
  from c3 l3 have e3: "summarize_segment (str ''Registered NGOs in Kenya'') = str ''Registered NGOs in Kenya''"
    by blast
  from c4 l4 r4 t4 have e4: "summarize_segment (replicate 200 97 @ [46] @ replicate 120 98) = replicate 200 97 @ [46]"
    by simp
  from c5 l5 r5 t5 have e5: "summarize_segment (replicate 100 97 @ [46] @ replicate 220 98)
     = replicate 100 97 @ [46] @ replicate 199 98 @ str ''...''"
    by simp
  from k1 e1 k2 s2 e2 e3 e4 e5 show ?thesis by blast
qed

section \<open>Properties of the organization\<close>






section \<open>Properties of the run\<close>

subsection \<open>No article reaches the append\<close>

lemma new_grant_items:
  "item new_grant ''title'' = PyNone" "item new_grant ''applicationUrl'' = PyNone"
  "item new_grant ''description'' = PyNone"
  by (simp_all add: item_def new_grant_def)

lemma article_body_raises:
  "has_title a \<Longrightarrow> link_href a \<noteq> None \<Longrightarrow>
     article_body env a st = Raised TypeError (st\<lparr>helpers_defined := True\<rparr>)"
  by (simp add: article_body_def new_grant_items candidate_organization_def
      extract_organization_def)

lemma article_body_skips:
  "\<not> (has_title a \<and> link_href a \<noteq> None) \<Longrightarrow> article_body env a st = Skipped st"
  by (auto simp: article_body_def)

lemma process_article_keeps:
  "grants (process_article env a st) = grants st \<and>
   existing_grant_urls (process_article env a st) = existing_grant_urls st \<and>
   processed_urls (process_article env a st) = processed_urls st \<and>
   page_has_valid_grants (process_article env a st) = page_has_valid_grants st"
proof (cases "has_title a \<and> link_href a \<noteq> None")
  case True
  then show ?thesis by (simp add: process_article_def article_body_raises)
next
  case False
  then show ?thesis by (simp add: process_article_def article_body_skips)
qed

lemma process_articles_keeps:
  "grants (process_articles env as st) = grants st \<and>
   existing_grant_urls (process_articles env as st) = existing_grant_urls st \<and>
   processed_urls (process_articles env as st) = processed_urls st \<and>
   page_has_valid_grants (process_articles env as st) = page_has_valid_grants st"
  by (induction as arbitrary: st) (simp_all add: process_article_keeps)

lemma scrape_pages_keeps:
  "grants (scrape_pages env ps st) = grants st \<and>
   existing_grant_urls (scrape_pages env ps st) = existing_grant_urls st"
  by (induction env ps st rule: scrape_pages.induct)
     (auto simp: process_articles_keeps Let_def)

lemma scrape_pages_stops:
  "scrape_pages env (PageArticles (a # as) # rest) st =
     process_articles env (a # as) (st\<lparr>page_has_valid_grants := False\<rparr>)"
proof -
  have "\<not> page_has_valid_grants (process_articles env (a # as) (st\<lparr>page_has_valid_grants := False\<rparr>))"
    using process_articles_keeps [of env "a # as" "st\<lparr>page_has_valid_grants := False\<rparr>"] by simp
  then show ?thesis by (simp add: Let_def)
qed

text \<open>
  C2. An article with a title tag and a link makes the loop body raise
  \<open>TypeError\<close>: the organization is resolved while the title of the record is
  still \<open>None\<close>, and the search in it fails; an article without them is skipped
  before. Either way the handlers go on with the next article, and the records, the
  known URLs and \<open>page_has_valid_grants\<close> are as before. So a run appends
  nothing; the loop over the pages ends with the first page that has articles,
  \<open>page_has_valid_grants\<close> being false; and what a run writes is the clean-up of
  the records it loaded.
\<close>

theorem no_grant_is_ever_appended:
  "(has_title a \<and> link_href a \<noteq> None \<longrightarrow>
      article_body env a st = Raised TypeError (st\<lparr>helpers_defined := True\<rparr>)) \<and>
   (\<not> (has_title a \<and> link_href a \<noteq> None) \<longrightarrow> article_body env a st = Skipped st) \<and>
   grants (process_article env a st) = grants st \<and>
   existing_grant_urls (process_article env a st) = existing_grant_urls st \<and>
   page_has_valid_grants (process_article env a st) = page_has_valid_grants st \<and>
   grants (scrape env pages st) = grants st \<and>
   scrape_pages env (PageArticles (a # tail) # rest) st =
     process_articles env (a # tail) (st\<lparr>page_has_valid_grants := False\<rparr>) \<and>
   \<not> page_has_valid_grants (process_articles env (a # tail) (st\<lparr>page_has_valid_grants := False\<rparr>)) \<and>
   (scraper_run env loaded pages = Some saved \<longrightarrow> (\<exists>h. save_all h loaded = Inr saved))"
proof -
  have run: "\<exists>h. save_all h loaded = Inr saved" if "scraper_run env loaded pages = Some saved"
  proof -
    have "grants (scrape env pages (startup loaded)) = loaded"
      by (simp add: scrape_def scrape_pages_keeps startup_def)
    with that show ?thesis
      by (auto simp: scraper_run_def Let_def split: sum.splits)
  qed
  have "\<not> page_has_valid_grants (process_articles env (a # tail) (st\<lparr>page_has_valid_grants := False\<rparr>))"
    using process_articles_keeps [of env "a # tail" "st\<lparr>page_has_valid_grants := False\<rparr>"] by simp
  with run show ?thesis
    using article_body_raises [of a env st] article_body_skips [of a env st]
      process_article_keeps [of env a st] scrape_pages_keeps [of env "take 10 pages" st]
      scrape_pages_stops [of env a tail rest st]
    unfolding scrape_def by blast
qed

text \<open>A listing with title and link, on one page and on two.\<close>

theorem no_grant_is_ever_appended_witness:
  "has_title listing \<and> link_href listing \<noteq> None \<and>
   article_body env listing (startup []) = Raised TypeError ((startup [])\<lparr>helpers_defined := True\<rparr>) \<and>
   grants (scrape env [PageArticles [listing], PageArticles [listing]] (startup [])) = [] \<and>
   scraper_run env [] [PageArticles [listing]] = Some []"
proof -
  have h: "has_title listing \<and> link_href listing \<noteq> None" by (simp add: listing_def)
  have s: "save_all h [] = Inr []" for h by simp
  note t = no_grant_is_ever_appended [where a = listing and st = "startup []"
      and pages = "[PageArticles [listing], PageArticles [listing]]" and env = env]
  from t h have 1: "article_body env listing (startup []) = Raised TypeError ((startup [])\<lparr>helpers_defined := True\<rparr>)"
    by blast
  from t have 2: "grants (scrape env [PageArticles [listing], PageArticles [listing]] (startup [])) = []"
    by (simp add: startup_def)
  have "grants (scrape env [PageArticles [listing]] (startup [])) = []"
    using no_grant_is_ever_appended [where a = listing and st = "startup []"
      and pages = "[PageArticles [listing]]" and env = env]
    by (simp add: startup_def)
  then have 3: "scraper_run env [] [PageArticles [listing]] = Some []"
    by (simp add: scraper_run_def Let_def)
  from h 1 2 3 show ?thesis by blast
qed

subsection \<open>The deduplication\<close>

lemma dedup_append_known:
  "url_of g \<in> existing_grant_urls st \<Longrightarrow>
     grants (dedup_append g st) = grants st \<and>
     existing_grant_urls (dedup_append g st) = existing_grant_urls st"
  by (simp add: dedup_append_def url_of_def)

lemma dedup_append_new:
  "url_of g \<notin> existing_grant_urls st \<Longrightarrow>
     grants (dedup_append g st) = grants st @ [g] \<and>
     existing_grant_urls (dedup_append g st) = insert (url_of g) (existing_grant_urls st)"
  by (simp add: dedup_append_def url_of_def)

lemma fold_dedup_append:
  "\<exists>new. grants (fold dedup_append gs st) = grants st @ new \<and>
         distinct (map url_of new) \<and>
         (\<forall>g \<in> set new. url_of g \<notin> existing_grant_urls st) \<and>
         set new \<subseteq> set gs \<and>
         existing_grant_urls (fold dedup_append gs st) = existing_grant_urls st \<union> url_of ` set gs"
proof (induction gs arbitrary: st)
  case Nil
  then show ?case by simp
next
  case (Cons g gs)
  from Cons.IH [of "dedup_append g st"] obtain new where
    n: "grants (fold dedup_append gs (dedup_append g st)) = grants (dedup_append g st) @ new"
      "distinct (map url_of new)"
      "\<forall>x \<in> set new. url_of x \<notin> existing_grant_urls (dedup_append g st)"
      "set new \<subseteq> set gs"
      "existing_grant_urls (fold dedup_append gs (dedup_append g st)) =
         existing_grant_urls (dedup_append g st) \<union> url_of ` set gs"
    by blast
  show ?case
  proof (cases "url_of g \<in> existing_grant_urls st")
    case True
    with n dedup_append_known [OF True] show ?thesis
      by (intro exI [of _ new]) auto
  next
    case False
    note d = dedup_append_new [OF False]
    from n(3) d have notg: "\<forall>x \<in> set new. url_of x \<noteq> url_of g \<and> url_of x \<notin> existing_grant_urls st"
      by auto
    with n d show ?thesis
      by (intro exI [of _ "g # new"]) (auto simp: False)
  qed
qed

text \<open>
  C4. Two candidates with the same application URL, in either order: if the URL is
  known, none is appended; if it is new, the first is appended and the second is
  rejected, so exactly one record is added. An accepted URL is among the known URLs
  at once. For any sequence of candidates the appended records have pairwise
  different URLs, none of them known before. A candidate with the URL of a record
  loaded at startup is rejected.
\<close>

theorem at_most_once:
  "(url_of g1 = url_of g2 \<longrightarrow>
      grants (dedup_append g2 (dedup_append g1 st)) =
        (if url_of g1 \<in> existing_grant_urls st then grants st else grants st @ [g1]) \<and>
      grants (dedup_append g1 (dedup_append g2 st)) =
        (if url_of g1 \<in> existing_grant_urls st then grants st else grants st @ [g2])) \<and>
   url_of g1 \<in> existing_grant_urls (dedup_append g1 st) \<and>
   (\<exists>new. grants (fold dedup_append gs st) = grants st @ new \<and>
          distinct (map url_of new) \<and>
          (\<forall>g \<in> set new. url_of g \<notin> existing_grant_urls st) \<and>
          set new \<subseteq> set gs) \<and>
   (distinct (map url_of (grants st)) \<and> url_of ` set (grants st) \<subseteq> existing_grant_urls st \<longrightarrow>
      distinct (map url_of (grants (fold dedup_append gs st)))) \<and>
   (g0 \<in> set loaded \<and> g0 ''applicationUrl'' = Some (url_of g1) \<longrightarrow>
      grants (dedup_append g1 (startup loaded)) = loaded)"
proof -
  have 1: "grants (dedup_append b (dedup_append a st)) =
        (if url_of a \<in> existing_grant_urls st then grants st else grants st @ [a])"
    if "url_of a = url_of b" for a b
    using that by (simp add: dedup_append_def url_of_def)
  have 2: "url_of g1 \<in> existing_grant_urls (dedup_append g1 st)"
    by (simp add: dedup_append_def url_of_def)
  have 3: "\<exists>new. grants (fold dedup_append gs st) = grants st @ new \<and>
          distinct (map url_of new) \<and>
          (\<forall>g \<in> set new. url_of g \<notin> existing_grant_urls st) \<and>
          set new \<subseteq> set gs"
    using fold_dedup_append [of gs st] by blast
  have 4: "grants (dedup_append g1 (startup loaded)) = loaded"
    if "g0 \<in> set loaded" "g0 ''applicationUrl'' = Some (url_of g1)"
  proof -
    from that have "url_of g1 \<in> existing_grant_urls (startup loaded)"
      by (force simp: startup_def List.map_filter_def)
    from dedup_append_known [OF this] show ?thesis by (simp add: startup_def)
  qed
  have swapped: "grants (dedup_append g1 (dedup_append g2 st)) =
        (if url_of g1 \<in> existing_grant_urls st then grants st else grants st @ [g2])"
    if "url_of g1 = url_of g2"
    using 1 [of g2 g1] that by simp
  have 5: "distinct (map url_of (grants (fold dedup_append gs st)))"
    if "distinct (map url_of (grants st))" "url_of ` set (grants st) \<subseteq> existing_grant_urls st"
  proof -
    from 3 obtain new where n: "grants (fold dedup_append gs st) = grants st @ new"
      "distinct (map url_of new)" "\<forall>g \<in> set new. url_of g \<notin> existing_grant_urls st"
      by blast
    from n(3) that(2) have "url_of ` set (grants st) \<inter> url_of ` set new = {}" by auto
    with n that(1) show ?thesis by simp
  qed
  from 1 [of g1 g2] swapped 2 3 4 5 show ?thesis by blast
qed

text \<open>Two candidates with one URL, against an empty store and against a store that
  holds the first.\<close>

theorem at_most_once_witness:
  "url_of candidate_a = url_of candidate_b \<and>
   url_of candidate_a \<notin> existing_grant_urls (startup []) \<and>
   grants (dedup_append candidate_b (dedup_append candidate_a (startup []))) = [candidate_a] \<and>
   grants (dedup_append candidate_a (dedup_append candidate_b (startup []))) = [candidate_b] \<and>
   grants (dedup_append candidate_b (startup [candidate_a])) = [candidate_a]"
proof -
  have u: "url_of candidate_a = url_of candidate_b"
    by (simp add: url_of_def item_def candidate_a_def candidate_b_def)
  have e: "url_of candidate_a \<notin> existing_grant_urls (startup [])"
    by (simp add: startup_def List.map_filter_def)
  have k: "candidate_a ''applicationUrl'' = Some (url_of candidate_b)"
    by (simp add: url_of_def item_def candidate_a_def candidate_b_def)
  have s0: "grants (startup []) = []"
    by (simp add: startup_def)
  from at_most_once [where ?g1.0 = candidate_a and ?g2.0 = candidate_b and st = "startup []"] u e s0
  have 1: "grants (dedup_append candidate_b (dedup_append candidate_a (startup []))) = [candidate_a] \<and>
    grants (dedup_append candidate_a (dedup_append candidate_b (startup []))) = [candidate_b]"
    by simp
  from at_most_once [where ?g1.0 = candidate_b and ?g0.0 = candidate_a and loaded = "[candidate_a]"] k
  have 2: "grants (dedup_append candidate_b (startup [candidate_a])) = [candidate_a]"
    by simp
  from u e 1 2 show ?thesis by blast
qed

subsection \<open>The cutoff\<close>

lemma detail_stage_grants: "grants (state_of (detail_stage env cd g st)) = grants st"
  by (auto simp: detail_stage_def Let_def mark_processed_def
      split: option.splits deadline_check.splits)

lemma listing_stage_grants: "grants (state_of (listing_stage env a g d st)) = grants st"
  by (auto simp: listing_stage_def Let_def mark_processed_def
      split: option.splits deadline_check.splits)

lemma dedup_append_grants:
  "grants (dedup_append g st) = grants st \<or> grants (dedup_append g st) = grants st @ [g]"
  by (simp add: dedup_append_def)

lemma final_stage_next:
  "final_stage cd g d st = Next g' st' \<Longrightarrow>
     (\<exists>dl dt. item g' ''deadline'' = PyStr dl \<and> strptime dl deadline_format = Some dt \<and>
        date_less deadline_cutoff dt) \<and>
     (grants st' = grants st \<or> grants st' = grants st @ [g'])"
  using dedup_append_grants
  by (auto simp: final_stage_def Let_def item_def deadline_passes_def
      split: if_splits pyval.splits sum.splits option.splits)

lemma final_stage_other:
  "\<not> is_next (final_stage cd g d st) \<Longrightarrow> grants (state_of (final_stage cd g d st)) = grants st"
  by (auto simp: final_stage_def Let_def mark_processed_def
      split: if_splits pyval.splits sum.splits)

lemma after_fetch_next:
  assumes "after_fetch env a cd g st = Next g' st'"
  shows "(\<exists>dl dt. item g' ''deadline'' = PyStr dl \<and> strptime dl deadline_format = Some dt \<and>
        date_less deadline_cutoff dt) \<and>
     (grants st' = grants st \<or> grants st' = grants st @ [g'])"
proof -
  from assms obtain g2 d2 s2 where 1: "detail_stage env cd g st = Next (g2, d2) s2"
    by (auto simp: after_fetch_def split: step.splits)
  with assms obtain g3 d3 s3 where 2: "listing_stage env a g2 d2 s2 = Next (g3, d3) s3"
    by (auto simp: after_fetch_def split: step.splits)
  with 1 assms have 3: "final_stage cd g3 d3 s3 = Next g' st'"
    by (simp add: after_fetch_def)
  from detail_stage_grants [of env cd g st] 1 have "grants s2 = grants st" by simp
  moreover from listing_stage_grants [of env a g2 d2 s2] 2 have "grants s3 = grants s2" by simp
  ultimately show ?thesis using final_stage_next [OF 3] by simp
qed

lemma after_fetch_other:
  assumes "\<not> is_next (after_fetch env a cd g st)"
  shows "grants (state_of (after_fetch env a cd g st)) = grants st"
proof (cases "detail_stage env cd g st")
  case (Raised e s)
  with detail_stage_grants [of env cd g st] show ?thesis by (simp add: after_fetch_def)
next
  case (Skipped s)
  with detail_stage_grants [of env cd g st] show ?thesis by (simp add: after_fetch_def)
next
  case (Next x s2)
  obtain g2 d2 where x: "x = (g2, d2)" by (cases x) auto
  from Next detail_stage_grants [of env cd g st] have g2: "grants s2 = grants st" by simp
  show ?thesis
  proof (cases "listing_stage env a g2 d2 s2")
    case (Raised e s)
    with listing_stage_grants [of env a g2 d2 s2] Next x g2 show ?thesis
      by (simp add: after_fetch_def)
  next
    case (Skipped s)
    with listing_stage_grants [of env a g2 d2 s2] Next x g2 show ?thesis
      by (simp add: after_fetch_def)
  next
    case n: (Next y s3)
    obtain g3 d3 where y: "y = (g3, d3)" by (cases y) auto
    from n listing_stage_grants [of env a g2 d2 s2] g2 have g3: "grants s3 = grants st" by simp
    from Next x n y have eq: "after_fetch env a cd g st = final_stage cd g3 d3 s3"
      by (simp add: after_fetch_def)
    with assms final_stage_other [of cd g3 d3 s3] g3 show ?thesis by simp
  qed
qed

lemma check_deadline_cases:
  "(parse_date env ds = Some dt \<and> \<not> date_less deadline_cutoff dt \<longrightarrow> check_deadline env ds = Stale) \<and>
   (parse_date env ds = Some deadline_cutoff \<longrightarrow> check_deadline env ds = Stale) \<and>
   (parse_date env ds = None \<longrightarrow> check_deadline env ds = Unparsed)"
  by (auto simp: check_deadline_def date_less_def)

lemma stale_detail_is_skipped:
  "detail_deadline_str (page_text c) = Some ds \<Longrightarrow> check_deadline env ds = Stale \<Longrightarrow>
     \<exists>s. after_fetch env a (Some c) g st = Skipped s \<and> grants s = grants st"
  by (simp add: after_fetch_def detail_stage_def Let_def mark_processed_def)

lemma no_deadline_is_skipped:
  assumes "item g ''deadline'' = PyNone"
    and "cd = None \<or> (\<exists>c. cd = Some c \<and> (detail_deadline_str (page_text c) = None \<or>
           (\<exists>ds. detail_deadline_str (page_text c) = Some ds \<and> check_deadline env ds = Unparsed)))"
    and "listing_deadline a = None \<or>
         (\<exists>p. listing_deadline a = Some (Some p) \<and>
              check_deadline env (strip (last (split_on 58 p))) = Unparsed)"
  shows "\<exists>s. after_fetch env a cd g st = Skipped s \<and> grants s = grants st"
  using assms
  by (auto simp: after_fetch_def detail_stage_def listing_stage_def final_stage_def Let_def
      mark_processed_def item_def)

text \<open>
  C5. A candidate that passes the stages after the detail page has a deadline that,
  parsed with \<open>"%d-%b-%y"\<close>, is a date strictly after the cutoff, and it is the
  only record such a candidate can add; a candidate that does not pass adds
  nothing. A deadline text parsed to the cutoff itself or to an earlier date is
  stale, an unparsable one is unparsed; a stale deadline on the detail page ends the
  article; and without a parsed deadline from the detail page and from the listing
  the article is skipped.
\<close>

lemma fill_field_deadline:
  "g ''deadline'' = Some (PyStr d) \<Longrightarrow> fill_field f g ''deadline'' = Some (PyStr d)"
  by (auto simp: fill_field_def)

lemma fold_fill_field_deadline:
  "g ''deadline'' = Some (PyStr d) \<Longrightarrow> fold fill_field fs g ''deadline'' = Some (PyStr d)"
  by (induction fs arbitrary: g) (simp_all add: fill_field_deadline)

lemma save_text_fields_deadline:
  "save_text_fields h fs g = Inr g' \<Longrightarrow> ''deadline'' \<notin> set fs \<Longrightarrow>
     g' ''deadline'' = g ''deadline''"
proof (induction fs arbitrary: g)
  case Nil
  then show ?case by simp
next
  case (Cons f fs)
  show ?case
  proof (cases "truthy_val (item g f)")
    case False
    with Cons show ?thesis by simp
  next
    case True
    with Cons.prems obtain v where v: "clean_field (item g f) = Inr v"
      and r: "save_text_fields h fs (g(f \<mapsto> v)) = Inr g'"
      by (auto split: if_splits sum.splits)
    from Cons.IH [OF r] Cons.prems(2) show ?thesis by simp
  qed
qed

lemma save_cleanup_deadline_ok:
  assumes "save_cleanup h g = Inr g'" "deadline_ok g"
  shows "deadline_ok g'"
proof -
  from assms(2) obtain d where d: "g ''deadline'' = Some (PyStr d)" "deadline_passes d"
    by (auto simp: deadline_ok_def item_def split: option.splits pyval.splits)
  from assms(1) obtain g1 where
    g1: "save_text_fields h [''title'', ''description'', ''eligibility''] (fold fill_field record_fields g) = Inr g1"
    and g': "g' = g1 \<or> g' = g1(''amount'' \<mapsto> clean_amount_value (item g1 ''amount''))"
    by (auto simp: save_cleanup_def split: sum.splits if_splits)
  have "fold fill_field record_fields g ''deadline'' = Some (PyStr d)"
    using d(1) by (rule fold_fill_field_deadline)
  moreover have "g1 ''deadline'' = fold fill_field record_fields g ''deadline''"
    using g1 by (rule save_text_fields_deadline) simp
  ultimately have "g1 ''deadline'' = Some (PyStr d)" by simp
  with g' have "g' ''deadline'' = Some (PyStr d)" by auto
  with d(2) show ?thesis by (simp add: deadline_ok_def item_def)
qed

lemma save_all_deadline_ok:
  "save_all h gs = Inr gs' \<Longrightarrow> list_all deadline_ok gs \<Longrightarrow> list_all deadline_ok gs'"
  by (induction gs arbitrary: gs') (auto split: sum.splits dest: save_cleanup_deadline_ok)

theorem deadline_after_cutoff:
  "(after_fetch env a cd g st = Next g' st' \<longrightarrow>
      (\<exists>dl dt. item g' ''deadline'' = PyStr dl \<and> strptime dl deadline_format = Some dt \<and>
         date_less deadline_cutoff dt) \<and>
      (grants st' = grants st \<or> grants st' = grants st @ [g'])) \<and>
   (\<not> is_next (after_fetch env a cd g st) \<longrightarrow>
      grants (state_of (after_fetch env a cd g st)) = grants st) \<and>
   (parse_date env ds = Some dt \<and> \<not> date_less deadline_cutoff dt \<longrightarrow> check_deadline env ds = Stale) \<and>
   (parse_date env ds = Some deadline_cutoff \<longrightarrow> check_deadline env ds = Stale) \<and>
   (parse_date env ds = None \<longrightarrow> check_deadline env ds = Unparsed) \<and>
   (detail_deadline_str (page_text c) = Some ds \<and> check_deadline env ds = Stale \<longrightarrow>
      (\<exists>s. after_fetch env a (Some c) g st = Skipped s \<and> grants s = grants st)) \<and>
   (item g ''deadline'' = PyNone \<and>
    (cd = None \<or> (\<exists>c. cd = Some c \<and> (detail_deadline_str (page_text c) = None \<or>
           (\<exists>ds. detail_deadline_str (page_text c) = Some ds \<and> check_deadline env ds = Unparsed)))) \<and>
    (listing_deadline a = None \<or>
         (\<exists>p. listing_deadline a = Some (Some p) \<and>
              check_deadline env (strip (last (split_on 58 p))) = Unparsed)) \<longrightarrow>
      (\<exists>s. after_fetch env a cd g st = Skipped s \<and> grants s = grants st)) \<and>
   (list_all deadline_ok (grants st) \<longrightarrow>
      list_all deadline_ok (grants (state_of (after_fetch env a cd g st)))) \<and>
   (list_all deadline_ok loaded \<and> scraper_run env loaded pages = Some saved \<longrightarrow>
      list_all deadline_ok saved)"
proof -
  have inv: "list_all deadline_ok (grants (state_of (after_fetch env a cd g st)))"
    if ok: "list_all deadline_ok (grants st)"
  proof (cases "after_fetch env a cd g st")
    case (Raised e s)
    with after_fetch_other [of env a cd g st] ok show ?thesis by simp
  next
    case (Skipped s)
    with after_fetch_other [of env a cd g st] ok show ?thesis by simp
  next
    case (Next g2 s2)
    from after_fetch_next [OF Next] have "deadline_ok g2"
      and "grants s2 = grants st \<or> grants s2 = grants st @ [g2]"
      by (auto simp: deadline_ok_def deadline_passes_def)
    with Next ok show ?thesis by auto
  qed
  have run: "list_all deadline_ok saved"
    if "list_all deadline_ok loaded" "scraper_run env loaded pages = Some saved"
  proof -
    have "grants (scrape env pages (startup loaded)) = loaded"
      by (simp add: scrape_def scrape_pages_keeps startup_def)
    with that(2) obtain h where "save_all h loaded = Inr saved"
      by (auto simp: scraper_run_def Let_def split: sum.splits)
    from save_all_deadline_ok [OF this that(1)] show ?thesis .
  qed
  from inv run show ?thesis
    using after_fetch_next [of env a cd g st g' st'] after_fetch_other [of env a cd g st]
      check_deadline_cases [of env ds dt] stale_detail_is_skipped [of c ds env a g st]
      no_deadline_is_skipped [of g cd env a st]
    by blast
qed


text \<open>
  A detail page with the deadline 03-Apr-25 passes; one with 02-Apr-25, the cutoff,
  is skipped; so is a candidate without any deadline.
\<close>

theorem deadline_after_cutoff_witness:
  "is_next (after_fetch no_fallback listing (Some page_open) candidate_a (startup [])) \<and>
   (case after_fetch no_fallback listing (Some page_open) candidate_a (startup []) of
      Next g s \<Rightarrow> item g ''deadline'' = PyStr (str ''03-Apr-25'') \<and> length (grants s) = 1
    | _ \<Rightarrow> False) \<and>
   (\<exists>g' st' dl dt.
      after_fetch no_fallback listing (Some page_open) candidate_a (startup []) = Next g' st' \<and>
      item g' ''deadline'' = PyStr dl \<and> strptime dl deadline_format = Some dt \<and>
      date_less deadline_cutoff dt) \<and>
   strptime (str ''03-Apr-25'') deadline_format = Some \<lparr>dt_year = 2025, dt_month = 4, dt_day = 3\<rparr> \<and>
   detail_deadline_str (page_text page_on_cutoff) = Some (str ''02-Apr-25'') \<and>
   parse_date no_fallback (str ''02-Apr-25'') = Some deadline_cutoff \<and>
   check_deadline no_fallback (str ''02-Apr-25'') = Stale \<and>
   (\<exists>s. after_fetch no_fallback listing (Some page_on_cutoff) candidate_a (startup []) = Skipped s \<and>
        grants s = []) \<and>
   parse_date no_fallback (str ''soon'') = None \<and>
   check_deadline no_fallback (str ''soon'') = Unparsed \<and>
   (\<exists>s. after_fetch no_fallback listing None candidate_a (startup []) = Skipped s \<and> grants s = [])"
proof -
  have n: "is_next (after_fetch no_fallback listing (Some page_open) candidate_a (startup []))"
    by code_simp
  have d: "(case after_fetch no_fallback listing (Some page_open) candidate_a (startup []) of
      Next g s \<Rightarrow> item g ''deadline'' = PyStr (str ''03-Apr-25'') \<and> length (grants s) = 1
    | _ \<Rightarrow> False)"
    by code_simp
  have p: "strptime (str ''03-Apr-25'') deadline_format = Some \<lparr>dt_year = 2025, dt_month = 4, dt_day = 3\<rparr>"
    by code_simp
  have ds: "detail_deadline_str (page_text page_on_cutoff) = Some (str ''02-Apr-25'')"
    by code_simp
  have pd: "parse_date no_fallback (str ''02-Apr-25'') = Some deadline_cutoff"
    by code_simp
  have pn: "parse_date no_fallback (str ''soon'') = None"
    by code_simp
  have g0: "item candidate_a ''deadline'' = PyNone"
    by (simp add: candidate_a_def new_grant_def item_def)
  have l0: "listing_deadline listing = None"
    by (simp add: listing_def)
  have s0: "grants (startup []) = []"
    by (simp add: startup_def)
  note t1 = deadline_after_cutoff [where env = no_fallback and ds = "str ''02-Apr-25''"
      and c = page_on_cutoff and a = listing and g = candidate_a and st = "startup []"
      and cd = None]
  from t1 pd have st: "check_deadline no_fallback (str ''02-Apr-25'') = Stale" by blast
  from t1 ds st s0 have sk: "\<exists>s. after_fetch no_fallback listing (Some page_on_cutoff) candidate_a (startup []) = Skipped s \<and>
        grants s = []"
    by simp
  from t1 g0 l0 s0 have nd: "\<exists>s. after_fetch no_fallback listing None candidate_a (startup []) = Skipped s \<and> grants s = []"
    by simp
  from deadline_after_cutoff [where env = no_fallback and ds = "str ''soon''"] pn
  have un: "check_deadline no_fallback (str ''soon'') = Unparsed" by blast
  from n obtain g' st' where
    nx: "after_fetch no_fallback listing (Some page_open) candidate_a (startup []) = Next g' st'"
    by (cases "after_fetch no_fallback listing (Some page_open) candidate_a (startup [])") auto
  from deadline_after_cutoff [where env = no_fallback and a = listing and cd = "Some page_open"
      and g = candidate_a and st = "startup []" and g' = g' and st' = st'] nx
  have ex: "\<exists>g' st' dl dt.
      after_fetch no_fallback listing (Some page_open) candidate_a (startup []) = Next g' st' \<and>
      item g' ''deadline'' = PyStr dl \<and> strptime dl deadline_format = Some dt \<and>
      date_less deadline_cutoff dt"
    by blast
  from n d ex p ds pd st sk pn un nd show ?thesis by blast
qed


end
